theory Spec2Isabelle
  imports Main "HOL-Library.AList"
begin

section \<open>Python values\<close>

text \<open>
  The attribute values of a \<^verbatim>\<open>PanObject\<close> and the results of \<^verbatim>\<open>response.json()\<close> are
  Python objects built from JSON: \<^verbatim>\<open>None\<close>, booleans, integers, strings, lists and
  dictionaries with string keys. A dictionary is an association list in insertion order;
  a Python dictionary never holds a key twice, so a well-formed one has distinct keys
  (\<open>wf_dict\<close> below). JSON numbers with a fraction (Python floats) are outside the model.
\<close>

datatype pyval =
    PNone
  | PBool bool
  | PInt int
  | PStr string
  | PList "pyval list"
  | PDict "(string \<times> pyval) list"

type_synonym pydict = "(string \<times> pyval) list"

text \<open>The exceptions the code under study raises or lets through.\<close>

datatype exn =
    ValueError string
  | AttributeError string
  | KeyError pyval
  | IndexError
  | TypeError
  | JSONDecodeError

subsection \<open>Dictionaries\<close>

text \<open>\<^verbatim>\<open>d[k] = v\<close>: an existing key keeps its place, a new key goes to the end.\<close>

definition dict_set :: "pydict \<Rightarrow> string \<Rightarrow> pyval \<Rightarrow> pydict" where
  "dict_set d k v = AList.update k v d"

text \<open>\<^verbatim>\<open>d.update(other)\<close>: one assignment per item of \<^verbatim>\<open>other\<close>, in order.\<close>

fun dict_update :: "pydict \<Rightarrow> pydict \<Rightarrow> pydict" where
  "dict_update d [] = d"
| "dict_update d ((k, v) # kvs) = dict_update (dict_set d k v) kvs"

text \<open>\<^verbatim>\<open>{k: v for k, v in items}\<close>: a new dictionary, filled item by item.\<close>

definition dict_comprehension :: "pydict \<Rightarrow> pydict" where
  "dict_comprehension its = dict_update [] its"

definition wf_dict :: "pydict \<Rightarrow> bool" where
  "wf_dict d = distinct (map fst d)"

subsection \<open>Formatting: \<^verbatim>\<open>"{}".format(v)\<close>\<close>

definition digit_char :: "nat \<Rightarrow> char" where
  "digit_char n = char_of (48 + n)"

function dec_nat :: "nat \<Rightarrow> string" where
  "dec_nat n = (if n < 10 then [digit_char n] else dec_nat (n div 10) @ [digit_char (n mod 10)])"
  by pat_completeness auto
termination
  by (relation "measure (\<lambda>n. n)") auto

definition str_int :: "int \<Rightarrow> string" where
  "str_int i = (if i < 0 then CHR ''-'' # dec_nat (nat (- i)) else dec_nat (nat i))"

definition hex_char :: "nat \<Rightarrow> char" where
  "hex_char n = (if n < 10 then char_of (48 + n) else char_of (87 + n))"

text \<open>
  \<^verbatim>\<open>repr\<close> of a string: single quotes unless the string holds a single quote and no double
  quote; the chosen quote and the backslash are escaped, as are tab, newline, carriage
  return and every other character that is not printable. A \<open>char\<close> is a code point below
  256; of these the control characters (0 to 31 and 127 to 159), the no-break space (160)
  and the soft hyphen (173) are not printable and are written \<^verbatim>\<open>\xNN\<close>. Strings with code
  points from 256 on are outside the model.
\<close>

definition repr_char :: "char \<Rightarrow> char \<Rightarrow> string" where
  "repr_char q c =
     (let n = (of_char c :: nat) in
      if c = q \<or> n = 92 then [char_of (92 :: nat), c]
      else if n = 9 then [char_of (92 :: nat), CHR ''t'']
      else if n = 10 then [char_of (92 :: nat), CHR ''n'']
      else if n = 13 then [char_of (92 :: nat), CHR ''r'']
      else if n < 32 \<or> (127 \<le> n \<and> n \<le> 160) \<or> n = 173 then
        [char_of (92 :: nat), CHR ''x'', hex_char (n div 16), hex_char (n mod 16)]
      else [c])"

definition repr_str :: "string \<Rightarrow> string" where
  "repr_str s =
     (let sq = char_of (39 :: nat); dq = char_of (34 :: nat);
          q = (if sq \<in> set s \<and> dq \<notin> set s then dq else sq)
      in q # concat (map (repr_char q) s) @ [q])"

fun join :: "string \<Rightarrow> string list \<Rightarrow> string" where
  "join sep [] = []"
| "join sep [x] = x"
| "join sep (x # y # ys) = x @ sep @ join sep (y # ys)"

fun py_repr :: "pyval \<Rightarrow> string" where
  "py_repr PNone = ''None''"
| "py_repr (PBool b) = (if b then ''True'' else ''False'')"
| "py_repr (PInt i) = str_int i"
| "py_repr (PStr s) = repr_str s"
| "py_repr (PList xs) = ''['' @ join '', '' (map py_repr xs) @ '']''"
| "py_repr (PDict kvs) =
     ''{'' @ join '', '' (map (\<lambda>kv. repr_str (fst kv) @ '': '' @ py_repr (snd kv)) kvs) @ ''}''"

text \<open>\<^verbatim>\<open>"{}".format(v)\<close> is \<^verbatim>\<open>str(v)\<close>: a string stands for itself, anything else for its \<^verbatim>\<open>repr\<close>.\<close>

fun py_format :: "pyval \<Rightarrow> string" where
  "py_format (PStr s) = s"
| "py_format v = py_repr v"

subsection \<open>The operations on values the code uses\<close>

text \<open>\<^verbatim>\<open>v.get(k)\<close>: only a dictionary has the method; a missing key gives \<^verbatim>\<open>None\<close>.\<close>

fun py_get :: "pyval \<Rightarrow> string \<Rightarrow> exn + pyval" where
  "py_get (PDict d) k = (case map_of d k of Some v \<Rightarrow> Inr v | None \<Rightarrow> Inr PNone)"
| "py_get v k = Inl (AttributeError ''get'')"

text \<open>
  \<^verbatim>\<open>xs[i]\<close> on a sequence: a negative index counts from the end, an index out of range
  raises \<^verbatim>\<open>IndexError\<close>.
\<close>

definition seq_index :: "'a list \<Rightarrow> int \<Rightarrow> exn + 'a" where
  "seq_index xs i =
     (if 0 \<le> i \<and> i < int (length xs) then Inr (xs ! nat i)
      else if i < 0 \<and> - i \<le> int (length xs) then Inr (xs ! nat (int (length xs) + i))
      else Inl IndexError)"

text \<open>
  \<^verbatim>\<open>v[k]\<close>. A dictionary raises \<^verbatim>\<open>KeyError\<close> for a missing key (its keys are strings, so
  any other hashable key is missing) and \<^verbatim>\<open>TypeError\<close> for an unhashable one; a list or a
  string takes an integer (a boolean is one); nothing else can be subscripted.
\<close>

fun py_getitem :: "pyval \<Rightarrow> pyval \<Rightarrow> exn + pyval" where
  "py_getitem (PDict d) (PStr k) = (case map_of d k of Some v \<Rightarrow> Inr v | None \<Rightarrow> Inl (KeyError (PStr k)))"
| "py_getitem (PDict d) (PList xs) = Inl TypeError"
| "py_getitem (PDict d) (PDict e) = Inl TypeError"
| "py_getitem (PDict d) k = Inl (KeyError k)"
| "py_getitem (PList xs) (PInt i) = seq_index xs i"
| "py_getitem (PList xs) (PBool b) = seq_index xs (if b then 1 else 0)"
| "py_getitem (PList xs) k = Inl TypeError"
| "py_getitem (PStr s) (PInt i) = map_sum id (\<lambda>c. PStr [c]) (seq_index s i)"
| "py_getitem (PStr s) (PBool b) = map_sum id (\<lambda>c. PStr [c]) (seq_index s (if b then 1 else 0))"
| "py_getitem (PStr s) k = Inl TypeError"
| "py_getitem v k = Inl TypeError"

text \<open>\<^verbatim>\<open>for x in v\<close>: the elements of a list, the keys of a dictionary, the characters of a string.\<close>

fun py_iter :: "pyval \<Rightarrow> exn + pyval list" where
  "py_iter (PList xs) = Inr xs"
| "py_iter (PDict d) = Inr (map (\<lambda>kv. PStr (fst kv)) d)"
| "py_iter (PStr s) = Inr (map (\<lambda>c. PStr [c]) s)"
| "py_iter v = Inl TypeError"


text \<open>
  \<^verbatim>\<open>x + y\<close>: strings and lists are concatenated, integers are added (a boolean counts as
  0 or 1), every other pair of operands raises \<^verbatim>\<open>TypeError\<close>.
\<close>

fun py_add :: "pyval \<Rightarrow> pyval \<Rightarrow> exn + pyval" where
  "py_add (PStr a) (PStr b) = Inr (PStr (a @ b))"
| "py_add (PList a) (PList b) = Inr (PList (a @ b))"
| "py_add (PInt a) (PInt b) = Inr (PInt (a + b))"
| "py_add (PInt a) (PBool b) = Inr (PInt (a + (if b then 1 else 0)))"
| "py_add (PBool a) (PInt b) = Inr (PInt ((if a then 1 else 0) + b))"
| "py_add (PBool a) (PBool b) = Inr (PInt ((if a then 1 else 0) + (if b then 1 else 0)))"
| "py_add x y = Inl TypeError"

section \<open>The resource entity\<close>

text \<open>
  A concrete subtype of \<^verbatim>\<open>PanObject\<close> fixes the class attribute \<^verbatim>\<open>_endpoint\<close> and inherits
  \<^verbatim>\<open>_base_url\<close>. An instance is its class and its \<^verbatim>\<open>__dict__\<close>. The class defines no
  attribute named \<^verbatim>\<open>folder\<close>, \<^verbatim>\<open>id\<close> or \<^verbatim>\<open>name\<close>, so \<^verbatim>\<open>hasattr\<close> on these asks the
  instance dictionary. \<^verbatim>\<open>self._base_url\<close> and \<^verbatim>\<open>self._endpoint\<close> are ordinary attribute
  lookups: an entry of that name in the instance dictionary (from the keywords of the
  constructor, hence also from server JSON) comes before the class attribute.
\<close>

record pan_class =
  base_url :: string
  endpoint :: string

definition PanObject_base_url :: string where
  "PanObject_base_url = ''https://api.sase.paloaltonetworks.com''"

record pan_object =
  cls :: pan_class
  attrs :: pydict

definition attr :: "pan_object \<Rightarrow> string \<Rightarrow> pyval option" where
  "attr self k = map_of (attrs self) k"

definition hasattr :: "pan_object \<Rightarrow> string \<Rightarrow> bool" where
  "hasattr self k = (attr self k \<noteq> None)"

definition getattr :: "pan_object \<Rightarrow> string \<Rightarrow> exn + pyval" where
  "getattr self k = (case attr self k of Some v \<Rightarrow> Inr v | None \<Rightarrow> Inl (AttributeError k))"

definition self_base_url :: "pan_object \<Rightarrow> pyval" where
  "self_base_url self =
     (case attr self ''_base_url'' of Some v \<Rightarrow> v | None \<Rightarrow> PStr (base_url (cls self)))"

definition self_endpoint :: "pan_object \<Rightarrow> pyval" where
  "self_endpoint self =
     (case attr self ''_endpoint'' of Some v \<Rightarrow> v | None \<Rightarrow> PStr (endpoint (cls self)))"

text \<open>The expression \<^verbatim>\<open>self._base_url + self._endpoint\<close>, which every operation evaluates.\<close>

definition base_endpoint :: "pan_object \<Rightarrow> exn + pyval" where
  "base_endpoint self = py_add (self_base_url self) (self_endpoint self)"

text \<open>The operand \<^verbatim>\<open>"/{}".format(i)\<close>.\<close>

definition id_suffix :: "pyval \<Rightarrow> pyval" where
  "id_suffix i = PStr (''/'' @ py_format i)"

definition setattr :: "pan_object \<Rightarrow> string \<Rightarrow> pyval \<Rightarrow> pan_object" where
  "setattr self k v = self\<lparr>attrs := dict_set (attrs self) k v\<rparr>"

text \<open>
  \<^verbatim>\<open>__init__(self, **kwargs)\<close>: \<^verbatim>\<open>self.__dict__.update(kwargs)\<close> on a new instance. A keyword
  named \<^verbatim>\<open>self\<close> collides with the first parameter and the call raises \<^verbatim>\<open>TypeError\<close>.
\<close>

definition PanObject_init :: "pan_class \<Rightarrow> pydict \<Rightarrow> exn + pan_object" where
  "PanObject_init c kwargs =
     (if ''self'' \<in> set (map fst kwargs) then Inl TypeError
      else Inr \<lparr>cls = c, attrs = dict_update [] kwargs\<rparr>)"

text \<open>\<^verbatim>\<open>type(self)(**v)\<close>: only a mapping can be unpacked into keywords.\<close>

fun construct :: "pan_class \<Rightarrow> pyval \<Rightarrow> exn + pan_object" where
  "construct c (PDict kwargs) = PanObject_init c kwargs"
| "construct c v = Inl TypeError"

text \<open>The \<^verbatim>\<open>payload\<close> property: \<^verbatim>\<open>{k: v for k, v in self.__dict__.items()}\<close>.\<close>

definition payload :: "pan_object \<Rightarrow> pydict" where
  "payload self = dict_comprehension (attrs self)"

section \<open>The session collaborator\<close>

text \<open>
  A request is what a verb of the session is called with: \<^verbatim>\<open>url\<close>, \<^verbatim>\<open>headers\<close>, \<^verbatim>\<open>params\<close>
  and \<^verbatim>\<open>json\<close>, a keyword the call leaves out being \<open>None\<close>. A response has its
  \<^verbatim>\<open>status_code\<close> and what \<^verbatim>\<open>.json()\<close> gives: \<open>None\<close> when the body is not JSON and the
  call raises.
\<close>

datatype http_verb = GET | POST | PUT | DELETE

record http_request =
  verb :: http_verb
  url :: pyval
  headers :: "(string \<times> string) list option"
  params :: pydict
  json :: "pydict option"

record http_response =
  status_code :: int
  resp_json :: "pyval option"

text \<open>
  The transport behind the verbs is a parameter of every operation: it answers a request
  with a response, or raises an exception, given by its message.
\<close>

type_synonym transport = "http_request \<Rightarrow> string + http_response"

text \<open>
  The state outside the entity: the session's \<^verbatim>\<open>is_expired\<close> and \<^verbatim>\<open>response\<close>, the number
  of \<^verbatim>\<open>reauthenticate()\<close> calls and the requests handed to the verbs so far, and the lines
  printed.
\<close>

record world =
  is_expired :: bool
  reauth_calls :: nat
  sent :: "http_request list"
  response :: "http_response option"
  stdout :: "string list"

text \<open>
  Modelled from the spec: the session's \<^verbatim>\<open>reauthenticate()\<close> is not among the sources. The
  spec gives it no return value and has it leave the session valid.
\<close>

definition reauthenticate :: "world \<Rightarrow> world" where
  "reauthenticate w = w\<lparr>is_expired := False, reauth_calls := Suc (reauth_calls w)\<rparr>"

text \<open>\<^verbatim>\<open>if session.is_expired: session.reauthenticate()\<close>, the first statement of every operation.\<close>

definition ensure_session :: "world \<Rightarrow> world" where
  "ensure_session w = (if is_expired w then reauthenticate w else w)"

text \<open>
  \<^verbatim>\<open>try: session.response = session.verb(...)\<close> with \<^verbatim>\<open>except Exception as err: print(err)\<close>:
  the response is stored and handed to the \<^verbatim>\<open>else\<close> branch, or the exception is printed
  and nothing is handed on.
\<close>

definition send :: "transport \<Rightarrow> http_request \<Rightarrow> world \<Rightarrow> http_response option \<times> world" where
  "send net req w =
     (case net req of
        Inl err \<Rightarrow> (None, w\<lparr>sent := sent w @ [req], stdout := stdout w @ [err]\<rparr>)
      | Inr resp \<Rightarrow> (Some resp, w\<lparr>sent := sent w @ [req], response := Some resp\<rparr>))"

section \<open>The operations\<close>

text \<open>
  An operation returns what the caller sees (an exception that reaches it, or the value
  returned), the instance and the world afterwards. The request of an operation is what
  it hands to the verb; building it can raise, before anything is sent.
\<close>

type_synonym 'r outcome = "(exn + 'r) \<times> pan_object \<times> world"

definition content_type :: "(string \<times> string) list" where
  "content_type = [(''Content-Type'', ''application/json'')]"

subsection \<open>create\<close>

definition create_request :: "pan_object \<Rightarrow> exn + http_request" where
  "create_request self =
     (case base_endpoint self of
        Inl e \<Rightarrow> Inl e
      | Inr u \<Rightarrow>
          Inr \<lparr>verb = POST, url = u, headers = Some content_type,
               params = (case attr self ''folder'' of
                           Some folder \<Rightarrow> [(''folder'', folder)] | None \<Rightarrow> []),
               json = Some (payload self)\<rparr>)"

definition create :: "transport \<Rightarrow> pan_object \<Rightarrow> world \<Rightarrow> unit outcome" where
  "create net self w =
     (let w1 = ensure_session w in
      case create_request self of
        Inl e \<Rightarrow> (Inl e, self, w1)
      | Inr req \<Rightarrow>
          (case send net req w1 of
             (None, w') \<Rightarrow> (Inr (), self, w')
           | (Some resp, w') \<Rightarrow>
               if status_code resp = 201 then
                 (case resp_json resp of
                    None \<Rightarrow> (Inl JSONDecodeError, self, w')
                  | Some config \<Rightarrow>
                      (case py_get config ''id'' of
                         Inl e \<Rightarrow> (Inl e, self, w')
                       | Inr v \<Rightarrow> (Inr (), setattr self ''id'' v, w')))
               else (Inr (), self, w')))"

subsection \<open>read\<close>

text \<open>
  Line 83 evaluates \<^verbatim>\<open>self._base_url + self._endpoint\<close> before the identifiers are looked
  at; with an \<^verbatim>\<open>id\<close>, line 91 evaluates it again and appends the formatted id.
\<close>

definition read_request :: "pan_object \<Rightarrow> exn + http_request" where
  "read_request self =
     (case base_endpoint self of
        Inl e \<Rightarrow> Inl e
      | Inr url0 \<Rightarrow>
          (let params0 = (case attr self ''folder'' of
                            Some folder \<Rightarrow> [(''folder'', folder)] | None \<Rightarrow> [])
           in case attr self ''id'' of
                Some i \<Rightarrow>
                  (case base_endpoint self of
                     Inl e \<Rightarrow> Inl e
                   | Inr u \<Rightarrow>
                       (case py_add u (id_suffix i) of
                          Inl e \<Rightarrow> Inl e
                        | Inr url1 \<Rightarrow>
                            Inr \<lparr>verb = GET, url = url1, headers = None, params = params0,
                                 json = None\<rparr>))
              | None \<Rightarrow>
                  (case attr self ''name'' of
                     Some n \<Rightarrow>
                       Inr \<lparr>verb = GET, url = url0, headers = None,
                            params = dict_update params0 [(''name'', n)], json = None\<rparr>
                   | None \<Rightarrow> Inl (ValueError ''name or id value is required''))))"

definition read :: "transport \<Rightarrow> pan_object \<Rightarrow> world \<Rightarrow> pan_object option outcome" where
  "read net self w =
     (let w1 = ensure_session w in
      case read_request self of
        Inl e \<Rightarrow> (Inl e, self, w1)
      | Inr req \<Rightarrow>
          (case send net req w1 of
             (None, w') \<Rightarrow> (Inr None, self, w')
           | (Some resp, w') \<Rightarrow>
               if status_code resp = 200 then
                 (case resp_json resp of
                    None \<Rightarrow> (Inl JSONDecodeError, self, w')
                  | Some result \<Rightarrow>
                      if hasattr self ''id'' then
                        (map_sum id Some (construct (cls self) result), self, w')
                      else if hasattr self ''name'' then
                        (case py_getitem result (PStr ''data'') of
                           Inl e \<Rightarrow> (Inl e, self, w')
                         | Inr data \<Rightarrow>
                             (case py_getitem data (PInt 0) of
                                Inl e \<Rightarrow> (Inl e, self, w')
                              | Inr config \<Rightarrow>
                                  (map_sum id Some (construct (cls self) config), self, w')))
                      else (Inr None, self, w'))
               else (Inr None, self, w')))"

subsection \<open>list\<close>

definition list_request :: "pan_object \<Rightarrow> exn + http_request" where
  "list_request self =
     (case base_endpoint self of
        Inl e \<Rightarrow> Inl e
      | Inr u \<Rightarrow>
          Inr \<lparr>verb = GET, url = u, headers = None,
               params = (case attr self ''folder'' of
                           Some folder \<Rightarrow> [(''folder'', folder), (''limit'', PInt 5000)]
                         | None \<Rightarrow> []),
               json = None\<rparr>)"

text \<open>
  The loop \<^verbatim>\<open>for config in ...: obj_list.append(type(self)(**config))\<close>, with the list built so
  far; the first element that cannot be constructed ends it with the exception.
\<close>

fun construct_all :: "pan_class \<Rightarrow> pan_object list \<Rightarrow> pyval list \<Rightarrow> exn + pan_object list" where
  "construct_all c obj_list [] = Inr obj_list"
| "construct_all c obj_list (config # rest) =
     (case construct c config of
        Inl e \<Rightarrow> Inl e
      | Inr obj \<Rightarrow> construct_all c (obj_list @ [obj]) rest)"

definition list_objects :: "transport \<Rightarrow> pan_object \<Rightarrow> world \<Rightarrow> pan_object list option outcome" where
  "list_objects net self w =
     (let w1 = ensure_session w in
      case list_request self of
        Inl e \<Rightarrow> (Inl e, self, w1)
      | Inr req \<Rightarrow>
          (case send net req w1 of
             (None, w') \<Rightarrow> (Inr None, self, w')
           | (Some resp, w') \<Rightarrow>
               if status_code resp = 200 then
                 (case resp_json resp of
                    None \<Rightarrow> (Inl JSONDecodeError, self, w')
                  | Some result \<Rightarrow>
                      (case py_getitem result (PStr ''data'') of
                         Inl e \<Rightarrow> (Inl e, self, w')
                       | Inr data \<Rightarrow>
                           (case py_iter data of
                              Inl e \<Rightarrow> (Inl e, self, w')
                            | Inr configs \<Rightarrow>
                                (map_sum id Some (construct_all (cls self) [] configs),
                                 self, w'))))
               else (Inr None, self, w')))"

subsection \<open>update\<close>

definition update_url :: "pan_object \<Rightarrow> exn + pyval" where
  "update_url self =
     (case attr self ''id'' of
        Some i \<Rightarrow>
          (case base_endpoint self of
             Inl e \<Rightarrow> Inl e
           | Inr u \<Rightarrow> py_add u (id_suffix i))
      | None \<Rightarrow> base_endpoint self)"

definition update_request :: "pan_object \<Rightarrow> exn + http_request" where
  "update_request self =
     (case update_url self of
        Inl e \<Rightarrow> Inl e
      | Inr u \<Rightarrow>
          Inr \<lparr>verb = PUT, url = u, headers = Some content_type,
               params = (case attr self ''folder'' of
                           Some folder \<Rightarrow> [(''folder'', folder)] | None \<Rightarrow> []),
               json = Some (payload self)\<rparr>)"

definition update :: "transport \<Rightarrow> pan_object \<Rightarrow> world \<Rightarrow> unit outcome" where
  "update net self w =
     (let w1 = ensure_session w in
      case update_request self of
        Inl e \<Rightarrow> (Inl e, self, w1)
      | Inr req \<Rightarrow>
          (case send net req w1 of
             (None, w') \<Rightarrow> (Inr (), self, w')
           | (Some resp, w') \<Rightarrow>
               if status_code resp = 200 then
                 (case resp_json resp of
                    None \<Rightarrow> (Inl JSONDecodeError, self, w')
                  | Some config \<Rightarrow> (Inr (), self, w'))
               else (Inr (), self, w')))"

subsection \<open>delete\<close>

text \<open>
  Line 156 evaluates \<^verbatim>\<open>self._base_url + self._endpoint\<close> first, then \<^verbatim>\<open>self.id\<close> for the
  format, then the second sum.
\<close>

definition delete_request :: "pan_object \<Rightarrow> exn + http_request" where
  "delete_request self =
     (case base_endpoint self of
        Inl e \<Rightarrow> Inl e
      | Inr u \<Rightarrow>
          (case getattr self ''id'' of
             Inl e \<Rightarrow> Inl e
           | Inr i \<Rightarrow>
               (case py_add u (id_suffix i) of
                  Inl e \<Rightarrow> Inl e
                | Inr url1 \<Rightarrow>
                    Inr \<lparr>verb = DELETE, url = url1, headers = Some content_type,
                         params = (case attr self ''folder'' of
                                     Some folder \<Rightarrow> [(''folder'', folder)] | None \<Rightarrow> []),
                         json = None\<rparr>)))"

text \<open>\<^verbatim>\<open>del self\<close> unbinds the local name only: the instance is as it was.\<close>

definition delete :: "transport \<Rightarrow> pan_object \<Rightarrow> world \<Rightarrow> unit outcome" where
  "delete net self w =
     (let w1 = ensure_session w in
      case delete_request self of
        Inl e \<Rightarrow> (Inl e, self, w1)
      | Inr req \<Rightarrow>
          (case send net req w1 of
             (None, w') \<Rightarrow> (Inr (), self, w')
           | (Some resp, w') \<Rightarrow>
               if status_code resp = 200 then (Inr (), self, w')
               else (Inr (), self, w')))"

section \<open>The payload as an object of its own\<close>

text \<open>
  Whether two names denote one dictionary or two is not visible in values, so the
  dictionaries live in a store here: an address is a position in the list of all
  dictionaries allocated so far, and a new dictionary goes to the end. The instance is
  known by the address of its \<^verbatim>\<open>__dict__\<close>. Reading \<^verbatim>\<open>payload\<close> evaluates the comprehension,
  which allocates a dictionary and returns its address; \<^verbatim>\<open>self.k = v\<close> and \<^verbatim>\<open>d[k] = v\<close> write
  the dictionary at an address in place.
\<close>

type_synonym addr = nat

type_synonym store = "pydict list"

definition store_get :: "store \<Rightarrow> addr \<Rightarrow> pydict option" where
  "store_get h a = (if a < length h then Some (h ! a) else None)"

definition store_alloc :: "store \<Rightarrow> pydict \<Rightarrow> addr \<times> store" where
  "store_alloc h d = (length h, h @ [d])"

definition store_setitem :: "store \<Rightarrow> addr \<Rightarrow> string \<Rightarrow> pyval \<Rightarrow> store" where
  "store_setitem h a k v = (if a < length h then h[a := dict_set (h ! a) k v] else h)"

definition payload_at :: "store \<Rightarrow> addr \<Rightarrow> (addr \<times> store) option" where
  "payload_at h self_dict =
     (case store_get h self_dict of
        None \<Rightarrow> None
      | Some d \<Rightarrow> Some (store_alloc h (dict_comprehension d)))"

section \<open>Concrete instances\<close>

definition addresses :: pan_class where
  "addresses = \<lparr>base_url = PanObject_base_url, endpoint = ''/sse/config/v1/addresses''\<rparr>"

definition w0 :: world where
  "w0 = \<lparr>is_expired = True, reauth_calls = 0, sent = [], response = None, stdout = []\<rparr>"

definition obj_new :: pan_object where
  "obj_new = \<lparr>cls = addresses, attrs = [(''name'', PStr ''web''), (''folder'', PStr ''Shared'')]\<rparr>"

definition obj_by_id :: pan_object where
  "obj_by_id = \<lparr>cls = addresses, attrs = [(''id'', PStr ''x''), (''name'', PStr ''y'')]\<rparr>"

definition obj_by_name :: pan_object where
  "obj_by_name = \<lparr>cls = addresses, attrs = [(''name'', PStr ''y'')]\<rparr>"

definition obj_anon :: pan_object where
  "obj_anon = \<lparr>cls = addresses, attrs = [(''folder'', PStr ''F'')]\<rparr>"

definition obj_evil :: pan_object where
  "obj_evil = \<lparr>cls = addresses, attrs = [(''id'', PStr ''x''), (''_endpoint'', PStr ''/evil'')]\<rparr>"

definition obj_evil_folder :: pan_object where
  "obj_evil_folder =
     \<lparr>cls = addresses, attrs = [(''folder'', PStr ''F''), (''_endpoint'', PStr ''/evil'')]\<rparr>"

definition obj_evil_name :: pan_object where
  "obj_evil_name =
     \<lparr>cls = addresses, attrs = [(''name'', PStr ''y''), (''_endpoint'', PStr ''/evil'')]\<rparr>"

definition obj_int_id :: pan_object where
  "obj_int_id = \<lparr>cls = addresses, attrs = [(''id'', PInt (- 120))]\<rparr>"

definition obj_int_endpoint :: pan_object where
  "obj_int_endpoint = \<lparr>cls = addresses, attrs = [(''_endpoint'', PInt 5)]\<rparr>"

definition obj_int_endpoint_id :: pan_object where
  "obj_int_endpoint_id =
     \<lparr>cls = addresses, attrs = [(''id'', PStr ''x''), (''_endpoint'', PInt 5)]\<rparr>"

definition obj_int_endpoint_folder :: pan_object where
  "obj_int_endpoint_folder =
     \<lparr>cls = addresses, attrs = [(''folder'', PStr ''F''), (''_endpoint'', PInt 5)]\<rparr>"

definition net_answer :: "int \<Rightarrow> pyval \<Rightarrow> transport" where
  "net_answer code body = (\<lambda>req. Inr \<lparr>status_code = code, resp_json = Some body\<rparr>)"

definition net_down :: transport where
  "net_down = (\<lambda>req. Inl ''connection refused'')"

section \<open>Dictionaries: assignment, update and comprehension\<close>

lemma dict_set_new: "k \<notin> fst ` set d \<Longrightarrow> dict_set d k v = d @ [(k, v)]"
  unfolding dict_set_def by (induction d) auto

lemma map_of_dict_set: "map_of (dict_set d k v) = (map_of d)(k \<mapsto> v)"
  unfolding dict_set_def by (rule update_conv')

lemma dict_update_append:
  "distinct (map fst (d @ kvs)) \<Longrightarrow> dict_update d kvs = d @ kvs"
proof (induction kvs arbitrary: d)
  case Nil
  show ?case by simp
next
  case (Cons kv kvs)
  obtain k v where kv: "kv = (k, v)" by (cases kv)
  from Cons.prems kv have new: "k \<notin> fst ` set d" by auto
  from Cons.prems kv have "distinct (map fst ((d @ [(k, v)]) @ kvs))" by auto
  then have "dict_update (d @ [(k, v)]) kvs = (d @ [(k, v)]) @ kvs" by (rule Cons.IH)
  with new kv show ?case by (simp add: dict_set_new)
qed

lemma dict_update_empty: "wf_dict d \<Longrightarrow> dict_update [] d = d"
  using dict_update_append [of "[]" d] by (simp add: wf_dict_def)

lemma dict_comprehension_id: "wf_dict d \<Longrightarrow> dict_comprehension d = d"
  by (simp add: dict_comprehension_def dict_update_empty)

lemma payload_wf: "wf_dict (attrs self) \<Longrightarrow> payload self = attrs self"
  by (simp add: payload_def dict_comprehension_id)

lemma PanObject_init_wf:
  "wf_dict M \<Longrightarrow> ''self'' \<notin> fst ` set M \<Longrightarrow> PanObject_init c M = Inr \<lparr>cls = c, attrs = M\<rparr>"
  by (simp add: PanObject_init_def dict_update_empty)

section \<open>Construction and payload\<close>

text \<open>
  Claim C2. For every attribute mapping \<open>M\<close> (a keyword dictionary: distinct keys, none of
  them \<^verbatim>\<open>self\<close>), constructing an entity from \<open>M\<close> succeeds and its payload is \<open>M\<close>. In the
  store, reading \<^verbatim>\<open>payload\<close> of an instance whose \<^verbatim>\<open>__dict__\<close> is at \<open>d\<close> returns an address
  that was not allocated before and is not \<open>d\<close>, holding a copy of \<open>M\<close>, and leaves
  \<^verbatim>\<open>__dict__\<close> as it was; a second read returns yet another address with the same content;
  a later assignment to an attribute of the instance does not change the copy, and an
  assignment into the copy does not change the instance. The copy is shallow: it holds
  the same values.
\<close>

theorem payload_round_trip_snapshot:
  assumes wf: "wf_dict M" and noself: "''self'' \<notin> fst ` set M"
    and at: "store_get h d = Some M"
  shows "(\<exists>obj. PanObject_init c M = Inr obj \<and> cls obj = c \<and> attrs obj = M \<and> payload obj = M)
    \<and> (\<exists>h1 h2. payload_at h d = Some (length h, h1)
          \<and> store_get h (length h) = None \<and> length h \<noteq> d
          \<and> store_get h1 (length h) = Some M \<and> store_get h1 d = Some M
          \<and> payload_at h1 d = Some (length h1, h2) \<and> length h1 \<noteq> length h
          \<and> store_get h2 (length h1) = Some M \<and> store_get h2 (length h) = Some M
          \<and> store_get (store_setitem h1 d k v) (length h) = Some M
          \<and> store_get (store_setitem h1 (length h) k v) d = Some M)"
proof
  have "payload \<lparr>cls = c, attrs = M\<rparr> = M"
    using wf by (simp add: payload_wf)
  with wf noself
  show "\<exists>obj. PanObject_init c M = Inr obj \<and> cls obj = c \<and> attrs obj = M \<and> payload obj = M"
    by (simp add: PanObject_init_wf)
next
  from at have d: "d < length h" and hd: "h ! d = M"
    by (auto simp: store_get_def split: if_splits)
  define h1 where "h1 = h @ [M]"
  define h2 where "h2 = h1 @ [M]"
  have p1: "payload_at h d = Some (length h, h1)"
    using at wf by (simp add: payload_at_def store_alloc_def dict_comprehension_id h1_def)
  have g1: "store_get h1 d = Some M" "store_get h1 (length h) = Some M"
    using d hd by (simp_all add: store_get_def h1_def nth_append)
  have p2: "payload_at h1 d = Some (length h1, h2)"
    using g1 wf by (simp add: payload_at_def store_alloc_def dict_comprehension_id h2_def)
  have g2: "store_get h2 (length h1) = Some M" "store_get h2 (length h) = Some M"
    by (simp_all add: store_get_def h2_def h1_def nth_append)
  have s1: "store_get (store_setitem h1 d k v) (length h) = Some M"
    using d by (simp add: store_get_def store_setitem_def h1_def nth_append)
  have s2: "store_get (store_setitem h1 (length h) k v) d = Some M"
    using d hd by (simp add: store_get_def store_setitem_def h1_def nth_append)
  have fresh: "store_get h (length h) = None" "length h \<noteq> d" "length h1 \<noteq> length h"
    using d by (simp_all add: store_get_def h1_def)
  from p1 g1 p2 g2 s1 s2 fresh
  show "\<exists>h1 h2. payload_at h d = Some (length h, h1)
          \<and> store_get h (length h) = None \<and> length h \<noteq> d
          \<and> store_get h1 (length h) = Some M \<and> store_get h1 d = Some M
          \<and> payload_at h1 d = Some (length h1, h2) \<and> length h1 \<noteq> length h
          \<and> store_get h2 (length h1) = Some M \<and> store_get h2 (length h) = Some M
          \<and> store_get (store_setitem h1 d k v) (length h) = Some M
          \<and> store_get (store_setitem h1 (length h) k v) d = Some M"
    by blast
qed

theorem payload_round_trip_snapshot_witness:
  "wf_dict (attrs obj_new) \<and> ''self'' \<notin> fst ` set (attrs obj_new)
   \<and> store_get [attrs obj_new] 0 = Some (attrs obj_new)
   \<and> PanObject_init addresses (attrs obj_new) = Inr obj_new
   \<and> payload obj_new = attrs obj_new
   \<and> payload_at [attrs obj_new] 0 = Some (1, [attrs obj_new, attrs obj_new])
   \<and> store_get (store_setitem [attrs obj_new, attrs obj_new] 0 ''id'' (PStr ''abc'')) 1
       = Some (attrs obj_new)"
proof -
  have h1: "wf_dict (attrs obj_new)" by (simp add: wf_dict_def obj_new_def)
  have h2: "''self'' \<notin> fst ` set (attrs obj_new)" by (simp add: obj_new_def)
  have h3: "store_get [attrs obj_new] 0 = Some (attrs obj_new)" by (simp add: store_get_def)
  from payload_round_trip_snapshot [OF h1 h2 h3, of addresses "''id''" "PStr ''abc''"]
  obtain obj h1' where
    o: "PanObject_init addresses (attrs obj_new) = Inr obj" "cls obj = addresses"
       "attrs obj = attrs obj_new" "payload obj = attrs obj_new"
    and p: "payload_at [attrs obj_new] 0 = Some (length [attrs obj_new], h1')"
    and s: "store_get (store_setitem h1' 0 ''id'' (PStr ''abc'')) (length [attrs obj_new]) = Some (attrs obj_new)"
    by blast
  from o have eq: "obj = obj_new" by (simp add: obj_new_def)
  from p have h1': "h1' = [attrs obj_new, attrs obj_new]"
    by (simp add: payload_at_def store_get_def store_alloc_def dict_comprehension_def dict_set_def obj_new_def)
  from h1 h2 h3 o p s eq h1' show ?thesis by simp
qed

section \<open>The session and the instance under the operations\<close>

lemma send_raises:
  "net req = Inl err \<Longrightarrow>
   send net req w = (None, w\<lparr>sent := sent w @ [req], stdout := stdout w @ [err]\<rparr>)"
  by (simp add: send_def)

lemma send_answers:
  "net req = Inr resp \<Longrightarrow>
   send net req w = (Some resp, w\<lparr>sent := sent w @ [req], response := Some resp\<rparr>)"
  by (simp add: send_def)

lemma sent_ensure_session: "sent (ensure_session w) = sent w"
  by (simp add: ensure_session_def reauthenticate_def)

lemma stdout_ensure_session: "stdout (ensure_session w) = stdout w"
  by (simp add: ensure_session_def reauthenticate_def)

lemma attr_setattr: "attr (setattr self k v) k' = (if k' = k then Some v else attr self k')"
  by (simp add: attr_def setattr_def map_of_dict_set)

lemma cls_setattr: "cls (setattr self k v) = cls self"
  by (simp add: setattr_def)

lemma base_endpoint_class:
  "attr self ''_base_url'' = None \<Longrightarrow> attr self ''_endpoint'' = None \<Longrightarrow>
   base_endpoint self = Inr (PStr (base_url (cls self) @ endpoint (cls self)))"
  by (simp add: base_endpoint_def self_base_url_def self_endpoint_def)

lemma base_endpoint_setattr_id: "base_endpoint (setattr self ''id'' v) = base_endpoint self"
  by (simp add: base_endpoint_def self_base_url_def self_endpoint_def attr_setattr cls_setattr
      split: option.split)

lemma create_request_url: "create_request self = Inr req \<Longrightarrow> base_endpoint self = Inr (url req)"
  by (auto simp: create_request_def split: sum.splits)

lemma payload_keeps_folder:
  "wf_dict (attrs self) \<Longrightarrow> attr self ''folder'' = Some F \<Longrightarrow>
   map_of (payload self) ''folder'' = Some F"
  by (simp add: payload_wf attr_def)

section \<open>The request body of create and update\<close>

text \<open>
  Claim C1 asks that an entity with \<^verbatim>\<open>folder\<close> set sends \<^verbatim>\<open>folder\<close> as a query parameter and
  that the JSON body of create and update does not hold the key \<^verbatim>\<open>folder\<close>. The first
  half holds; the second does not, since \<^verbatim>\<open>payload\<close> copies every attribute
  (\<open>payload_keeps_folder\<close>). Evaluated on an entity with \<^verbatim>\<open>name = "web"\<close> and
  \<^verbatim>\<open>folder = "Shared"\<close>: both requests carry \<^verbatim>\<open>folder\<close> in the parameters and in the body.
\<close>

theorem create_update_body_holds_folder:
  "create_request obj_new =
     Inr \<lparr>verb = POST,
          url = PStr ''https://api.sase.paloaltonetworks.com/sse/config/v1/addresses'',
          headers = Some [(''Content-Type'', ''application/json'')],
          params = [(''folder'', PStr ''Shared'')],
          json = Some [(''name'', PStr ''web''), (''folder'', PStr ''Shared'')]\<rparr>
   \<and> map (\<lambda>q. Inr q) (sent (snd (snd (create (net_answer 201 (PDict [(''id'', PStr ''abc'')]))
         obj_new w0)))) = [create_request obj_new]
   \<and> update_request obj_new =
     Inr \<lparr>verb = PUT,
          url = PStr ''https://api.sase.paloaltonetworks.com/sse/config/v1/addresses'',
          headers = Some [(''Content-Type'', ''application/json'')],
          params = [(''folder'', PStr ''Shared'')],
          json = Some [(''name'', PStr ''web''), (''folder'', PStr ''Shared'')]\<rparr>
   \<and> map (\<lambda>q. Inr q) (sent (snd (snd (update (net_answer 200 (PDict [])) obj_new w0))))
       = [update_request obj_new]"
  by (simp add: create_def update_def create_request_def update_request_def update_url_def
      base_endpoint_def self_base_url_def self_endpoint_def content_type_def send_def
      net_answer_def obj_new_def w0_def attr_def payload_def dict_comprehension_def dict_set_def
      ensure_session_def reauthenticate_def setattr_def addresses_def PanObject_base_url_def)

section \<open>create\<close>

text \<open>
  Claim C3. When the response to create has status 201 and its JSON body is a dictionary
  with \<^verbatim>\<open>id\<close> (the claim's body is \<^verbatim>\<open>{"id": "abc"}\<close>), create returns normally, \<^verbatim>\<open>self.id\<close> is
  that value and every other attribute is as before. With any other status the instance
  is unchanged, so an unset \<^verbatim>\<open>id\<close> stays unset. The response is the one the session gives
  to the request create sends.
\<close>

theorem create_sets_id_on_201_only:
  assumes req: "create_request self = Inr req" and net: "net req = Inr resp"
  shows "(status_code resp = 201 \<and> resp_json resp = Some (PDict d) \<and> map_of d ''id'' = Some v \<longrightarrow>
            fst (create net self w) = Inr ()
            \<and> attr (fst (snd (create net self w))) ''id'' = Some v
            \<and> (\<forall>k. k \<noteq> ''id'' \<longrightarrow> attr (fst (snd (create net self w))) k = attr self k)
            \<and> cls (fst (snd (create net self w))) = cls self)
       \<and> (status_code resp \<noteq> 201 \<longrightarrow>
            fst (create net self w) = Inr ()
            \<and> fst (snd (create net self w)) = self
            \<and> (attr self ''id'' = None \<longrightarrow> attr (fst (snd (create net self w))) ''id'' = None))"
  using req net by (simp add: create_def Let_def send_answers attr_setattr cls_setattr)

theorem create_sets_id_on_201_only_witness:
  "(\<exists>req. create_request obj_new = Inr req
      \<and> net_answer 201 (PDict [(''id'', PStr ''abc'')]) req
          = Inr \<lparr>status_code = 201, resp_json = Some (PDict [(''id'', PStr ''abc'')])\<rparr>
      \<and> net_answer 409 (PDict [(''id'', PStr ''abc'')]) req
          = Inr \<lparr>status_code = 409, resp_json = Some (PDict [(''id'', PStr ''abc'')])\<rparr>)
   \<and> attr obj_new ''id'' = None
   \<and> attr (fst (snd (create (net_answer 201 (PDict [(''id'', PStr ''abc'')])) obj_new w0))) ''id''
       = Some (PStr ''abc'')
   \<and> attr (fst (snd (create (net_answer 201 (PDict [(''id'', PStr ''abc'')])) obj_new w0))) ''name''
       = Some (PStr ''web'')
   \<and> fst (snd (create (net_answer 409 (PDict [(''id'', PStr ''abc'')])) obj_new w0)) = obj_new
   \<and> attr (fst (snd (create (net_answer 409 (PDict [(''id'', PStr ''abc'')])) obj_new w0))) ''id'' = None"
proof -
  let ?ok = "net_answer 201 (PDict [(''id'', PStr ''abc'')])"
  let ?no = "net_answer 409 (PDict [(''id'', PStr ''abc'')])"
  obtain req where r: "create_request obj_new = Inr req"
    by (simp add: create_request_def base_endpoint_def self_base_url_def self_endpoint_def
        attr_def obj_new_def)
  have a: "?ok req = Inr \<lparr>status_code = 201, resp_json = Some (PDict [(''id'', PStr ''abc'')])\<rparr>"
    by (simp add: net_answer_def)
  have b: "?no req = Inr \<lparr>status_code = 409, resp_json = Some (PDict [(''id'', PStr ''abc'')])\<rparr>"
    by (simp add: net_answer_def)
  have c: "attr obj_new ''id'' = None" "attr obj_new ''name'' = Some (PStr ''web'')"
    by (simp_all add: attr_def obj_new_def)
  from create_sets_id_on_201_only [of obj_new req "?ok" _ "[(''id'', PStr ''abc'')]" "PStr ''abc''" w0,
      OF r a] c
  have 1: "attr (fst (snd (create ?ok obj_new w0))) ''id'' = Some (PStr ''abc'')"
    "attr (fst (snd (create ?ok obj_new w0))) ''name'' = Some (PStr ''web'')"
    by simp_all
  from create_sets_id_on_201_only [of obj_new req "?no" _ "[]" PNone w0, OF r b] c
  have 2: "fst (snd (create ?no obj_new w0)) = obj_new"
    "attr (fst (snd (create ?no obj_new w0))) ''id'' = None"
    by simp_all
  from r a b c 1 2 show ?thesis by blast
qed

section \<open>read without an identifier\<close>

lemma read_request_no_identifier:
  "base_endpoint self = Inr u \<Longrightarrow> attr self ''id'' = None \<Longrightarrow> attr self ''name'' = None \<Longrightarrow>
   read_request self = Inl (ValueError ''name or id value is required'')"
  by (simp add: read_request_def)

text \<open>
  Claim C5, as stated, fails on an entity whose \<^verbatim>\<open>_endpoint\<close> is overridden by the integer 5
  and that has neither \<^verbatim>\<open>id\<close> nor \<^verbatim>\<open>name\<close>: line 83 evaluates
  \<^verbatim>\<open>self._base_url + self._endpoint\<close> before the identifiers are checked, so read raises
  \<^verbatim>\<open>TypeError\<close> and not the \<^verbatim>\<open>ValueError\<close>.
\<close>

theorem read_without_identifier_type_error:
  "attr obj_int_endpoint ''id'' = None \<and> attr obj_int_endpoint ''name'' = None
   \<and> read net_down obj_int_endpoint w0 = (Inl TypeError, obj_int_endpoint, reauthenticate w0)
   \<and> fst (read net_down obj_int_endpoint w0) \<noteq> Inl (ValueError ''name or id value is required'')"
  by (simp add: read_def read_request_def base_endpoint_def self_base_url_def self_endpoint_def
      attr_def obj_int_endpoint_def ensure_session_def w0_def)

text \<open>
  Claim C5, amended. For an entity with neither \<^verbatim>\<open>id\<close> nor \<^verbatim>\<open>name\<close> on which
  \<^verbatim>\<open>self._base_url + self._endpoint\<close> evaluates (as it does whenever no instance attribute
  overrides the two class attributes), read raises
  \<^verbatim>\<open>ValueError("name or id value is required")\<close> to the caller, the instance is unchanged and
  no request has been handed to the session (the session was reauthenticated first if it
  had expired). Of the three kinds of failure of the error taxonomy this is the one that
  reaches the caller: when the transport raises, or the status is not 200, read returns
  \<^verbatim>\<open>None\<close> and raises nothing.
\<close>

theorem read_without_identifier_raises:
  "(base_endpoint self = Inr u \<and> attr self ''id'' = None \<and> attr self ''name'' = None \<longrightarrow>
      read net self w = (Inl (ValueError ''name or id value is required''), self, ensure_session w)
      \<and> sent (ensure_session w) = sent w)
   \<and> (attr self ''_base_url'' = None \<and> attr self ''_endpoint'' = None \<longrightarrow>
        base_endpoint self = Inr (PStr (base_url (cls self) @ endpoint (cls self))))
   \<and> (read_request self = Inr req \<and> net req = Inl err \<longrightarrow> fst (read net self w) = Inr None)
   \<and> (read_request self = Inr req \<and> net req = Inr resp \<and> status_code resp \<noteq> 200 \<longrightarrow>
        fst (read net self w) = Inr None)"
  by (simp add: read_def Let_def read_request_no_identifier sent_ensure_session send_raises
      send_answers base_endpoint_class)

theorem read_without_identifier_raises_witness:
  "attr obj_anon ''id'' = None \<and> attr obj_anon ''name'' = None
   \<and> attr obj_anon ''_base_url'' = None \<and> attr obj_anon ''_endpoint'' = None
   \<and> base_endpoint obj_anon
       = Inr (PStr ''https://api.sase.paloaltonetworks.com/sse/config/v1/addresses'')
   \<and> read net_down obj_anon w0
       = (Inl (ValueError ''name or id value is required''), obj_anon, reauthenticate w0)
   \<and> sent (reauthenticate w0) = []
   \<and> (\<exists>req. read_request obj_by_name = Inr req \<and> net_down req = Inl ''connection refused''
        \<and> net_answer 404 PNone req = Inr \<lparr>status_code = 404, resp_json = Some PNone\<rparr>)
   \<and> fst (read net_down obj_by_name w0) = Inr None
   \<and> fst (read (net_answer 404 PNone) obj_by_name w0) = Inr None"
proof -
  let ?u = "PStr ''https://api.sase.paloaltonetworks.com/sse/config/v1/addresses''"
  have a: "attr obj_anon ''id'' = None" "attr obj_anon ''name'' = None"
    "attr obj_anon ''_base_url'' = None" "attr obj_anon ''_endpoint'' = None"
    by (simp_all add: attr_def obj_anon_def)
  have c: "base_url (cls obj_anon) @ endpoint (cls obj_anon)
      = ''https://api.sase.paloaltonetworks.com/sse/config/v1/addresses''"
    by (simp add: obj_anon_def addresses_def PanObject_base_url_def)
  obtain req where r: "read_request obj_by_name = Inr req"
    by (simp add: read_request_def base_endpoint_def self_base_url_def self_endpoint_def
        attr_def obj_by_name_def)
  have d: "net_down req = Inl ''connection refused''" by (simp add: net_down_def)
  have n: "net_answer 404 PNone req = Inr \<lparr>status_code = 404, resp_json = Some PNone\<rparr>"
    by (simp add: net_answer_def)
  have e: "ensure_session w0 = reauthenticate w0" by (simp add: ensure_session_def w0_def)
  have s: "sent w0 = []" by (simp add: w0_def)
  note t0 = read_without_identifier_raises [where self = obj_anon and u = ?u and net = net_down
      and w = w0]
  from t0 a c have b: "base_endpoint obj_anon = Inr ?u" by simp
  from t0 a b e s
  have 1: "read net_down obj_anon w0
       = (Inl (ValueError ''name or id value is required''), obj_anon, reauthenticate w0)"
    "sent (reauthenticate w0) = []" by simp_all
  from read_without_identifier_raises [where self = obj_by_name and net = net_down and w = w0
      and req = req and err = "''connection refused''"] r d
  have 2: "fst (read net_down obj_by_name w0) = Inr None" by simp
  from read_without_identifier_raises [where self = obj_by_name and net = "net_answer 404 PNone"
      and w = w0 and req = req and resp = "\<lparr>status_code = 404, resp_json = Some PNone\<rparr>"] r n
  have 3: "fst (read (net_answer 404 PNone) obj_by_name w0) = Inr None" by simp
  from a b 1 2 3 r d n show ?thesis by blast
qed

section \<open>delete without an id\<close>

lemma delete_request_no_id:
  "base_endpoint self = Inr u \<Longrightarrow> attr self ''id'' = None \<Longrightarrow>
   delete_request self = Inl (AttributeError ''id'')"
  by (simp add: delete_request_def getattr_def)

lemma delete_without_id:
  "base_endpoint self = Inr u \<Longrightarrow> attr self ''id'' = None \<Longrightarrow>
   delete net self w = (Inl (AttributeError ''id''), self, ensure_session w)"
  by (simp add: delete_def Let_def delete_request_no_id)

text \<open>
  Claim C7 asks that delete on an entity lacking \<^verbatim>\<open>id\<close> fail with a precondition error
  before any request is sent. Nothing is sent, but delete has no check of its own: the
  failure is the \<^verbatim>\<open>AttributeError\<close> of the unguarded \<^verbatim>\<open>self.id\<close> (\<open>delete_without_id\<close>), where
  read raises its \<^verbatim>\<open>ValueError\<close>. Evaluated on an entity that has only a \<^verbatim>\<open>name\<close>, next to
  read on an entity that has neither.
\<close>

theorem delete_without_id_raises_attribute_error:
  "delete net_down obj_by_name w0 = (Inl (AttributeError ''id''), obj_by_name, reauthenticate w0)
   \<and> sent (reauthenticate w0) = []
   \<and> read net_down obj_anon w0
       = (Inl (ValueError ''name or id value is required''), obj_anon, reauthenticate w0)"
  by (simp add: delete_def delete_request_def getattr_def read_def read_request_def attr_def
      base_endpoint_def self_base_url_def self_endpoint_def
      obj_by_name_def obj_anon_def ensure_session_def reauthenticate_def w0_def)

section \<open>Transport failures and other statuses\<close>

text \<open>
  Claim C8. For each of the five operations: when the verb of the session raises on the
  request the operation sends, the operation returns \<^verbatim>\<open>None\<close> to the caller without raising,
  the instance is unchanged and the exception has been printed; when the response has a
  status other than the one the operation acts on (201 for create, 200 for the others),
  the operation returns \<^verbatim>\<open>None\<close> without raising, the instance is unchanged and the
  response is stored in the session.
\<close>

theorem failures_leave_no_trace_on_instance:
  "(create_request self = Inr creq \<and> net creq = Inl err \<longrightarrow>
      create net self w = (Inr (), self,
        (ensure_session w)\<lparr>sent := sent w @ [creq], stdout := stdout w @ [err]\<rparr>))
   \<and> (create_request self = Inr creq \<and> net creq = Inr resp \<and> status_code resp \<noteq> 201 \<longrightarrow>
      create net self w = (Inr (), self,
        (ensure_session w)\<lparr>sent := sent w @ [creq], response := Some resp\<rparr>))
   \<and> (read_request self = Inr rreq \<and> net rreq = Inl err \<longrightarrow>
      read net self w = (Inr None, self,
        (ensure_session w)\<lparr>sent := sent w @ [rreq], stdout := stdout w @ [err]\<rparr>))
   \<and> (read_request self = Inr rreq \<and> net rreq = Inr resp \<and> status_code resp \<noteq> 200 \<longrightarrow>
      read net self w = (Inr None, self,
        (ensure_session w)\<lparr>sent := sent w @ [rreq], response := Some resp\<rparr>))
   \<and> (list_request self = Inr lreq \<and> net lreq = Inl err \<longrightarrow>
      list_objects net self w = (Inr None, self,
        (ensure_session w)\<lparr>sent := sent w @ [lreq], stdout := stdout w @ [err]\<rparr>))
   \<and> (list_request self = Inr lreq \<and> net lreq = Inr resp \<and> status_code resp \<noteq> 200 \<longrightarrow>
      list_objects net self w = (Inr None, self,
        (ensure_session w)\<lparr>sent := sent w @ [lreq], response := Some resp\<rparr>))
   \<and> (update_request self = Inr ureq \<and> net ureq = Inl err \<longrightarrow>
      update net self w = (Inr (), self,
        (ensure_session w)\<lparr>sent := sent w @ [ureq], stdout := stdout w @ [err]\<rparr>))
   \<and> (update_request self = Inr ureq \<and> net ureq = Inr resp \<and> status_code resp \<noteq> 200 \<longrightarrow>
      update net self w = (Inr (), self,
        (ensure_session w)\<lparr>sent := sent w @ [ureq], response := Some resp\<rparr>))
   \<and> (delete_request self = Inr dreq \<and> net dreq = Inl err \<longrightarrow>
      delete net self w = (Inr (), self,
        (ensure_session w)\<lparr>sent := sent w @ [dreq], stdout := stdout w @ [err]\<rparr>))
   \<and> (delete_request self = Inr dreq \<and> net dreq = Inr resp \<and> status_code resp \<noteq> 200 \<longrightarrow>
      delete net self w = (Inr (), self,
        (ensure_session w)\<lparr>sent := sent w @ [dreq], response := Some resp\<rparr>))"
proof -
  have f0: "create_request self = Inr creq \<and> net creq = Inl err \<longrightarrow>
      create net self w = (Inr (), self,
        (ensure_session w)\<lparr>sent := sent w @ [creq], stdout := stdout w @ [err]\<rparr>)"
    by (simp add: create_def Let_def send_raises sent_ensure_session stdout_ensure_session)
  have s0: "create_request self = Inr creq \<and> net creq = Inr resp \<and> status_code resp \<noteq> 201 \<longrightarrow>
      create net self w = (Inr (), self,
        (ensure_session w)\<lparr>sent := sent w @ [creq], response := Some resp\<rparr>)"
    by (simp add: create_def Let_def send_answers sent_ensure_session)
  have f1: "read_request self = Inr rreq \<and> net rreq = Inl err \<longrightarrow>
      read net self w = (Inr None, self,
        (ensure_session w)\<lparr>sent := sent w @ [rreq], stdout := stdout w @ [err]\<rparr>)"
    by (simp add: read_def Let_def send_raises sent_ensure_session stdout_ensure_session)
  have s1: "read_request self = Inr rreq \<and> net rreq = Inr resp \<and> status_code resp \<noteq> 200 \<longrightarrow>
      read net self w = (Inr None, self,
        (ensure_session w)\<lparr>sent := sent w @ [rreq], response := Some resp\<rparr>)"
    by (simp add: read_def Let_def send_answers sent_ensure_session)
  have f2: "list_request self = Inr lreq \<and> net lreq = Inl err \<longrightarrow>
      list_objects net self w = (Inr None, self,
        (ensure_session w)\<lparr>sent := sent w @ [lreq], stdout := stdout w @ [err]\<rparr>)"
    by (simp add: list_objects_def Let_def send_raises sent_ensure_session stdout_ensure_session)
  have s2: "list_request self = Inr lreq \<and> net lreq = Inr resp \<and> status_code resp \<noteq> 200 \<longrightarrow>
      list_objects net self w = (Inr None, self,
        (ensure_session w)\<lparr>sent := sent w @ [lreq], response := Some resp\<rparr>)"
    by (simp add: list_objects_def Let_def send_answers sent_ensure_session)
  have f3: "update_request self = Inr ureq \<and> net ureq = Inl err \<longrightarrow>
      update net self w = (Inr (), self,
        (ensure_session w)\<lparr>sent := sent w @ [ureq], stdout := stdout w @ [err]\<rparr>)"
    by (simp add: update_def Let_def send_raises sent_ensure_session stdout_ensure_session)
  have s3: "update_request self = Inr ureq \<and> net ureq = Inr resp \<and> status_code resp \<noteq> 200 \<longrightarrow>
      update net self w = (Inr (), self,
        (ensure_session w)\<lparr>sent := sent w @ [ureq], response := Some resp\<rparr>)"
    by (simp add: update_def Let_def send_answers sent_ensure_session)
  have f4: "delete_request self = Inr dreq \<and> net dreq = Inl err \<longrightarrow>
      delete net self w = (Inr (), self,
        (ensure_session w)\<lparr>sent := sent w @ [dreq], stdout := stdout w @ [err]\<rparr>)"
    by (simp add: delete_def Let_def send_raises sent_ensure_session stdout_ensure_session)
  have s4: "delete_request self = Inr dreq \<and> net dreq = Inr resp \<and> status_code resp \<noteq> 200 \<longrightarrow>
      delete net self w = (Inr (), self,
        (ensure_session w)\<lparr>sent := sent w @ [dreq], response := Some resp\<rparr>)"
    by (simp add: delete_def Let_def send_answers sent_ensure_session)
  from f0 s0 f1 s1 f2 s2 f3 s3 f4 s4 show ?thesis by blast
qed

theorem failures_leave_no_trace_on_instance_witness:
  "fst (create net_down obj_by_id w0) = Inr () \<and> fst (snd (create net_down obj_by_id w0)) = obj_by_id
   \<and> stdout (snd (snd (create net_down obj_by_id w0))) = [''connection refused'']
   \<and> fst (read net_down obj_by_id w0) = Inr None \<and> fst (snd (read net_down obj_by_id w0)) = obj_by_id
   \<and> stdout (snd (snd (read net_down obj_by_id w0))) = [''connection refused'']
   \<and> fst (list_objects net_down obj_by_id w0) = Inr None \<and> fst (snd (list_objects net_down obj_by_id w0)) = obj_by_id
   \<and> stdout (snd (snd (list_objects net_down obj_by_id w0))) = [''connection refused'']
   \<and> fst (update net_down obj_by_id w0) = Inr () \<and> fst (snd (update net_down obj_by_id w0)) = obj_by_id
   \<and> stdout (snd (snd (update net_down obj_by_id w0))) = [''connection refused'']
   \<and> fst (delete net_down obj_by_id w0) = Inr () \<and> fst (snd (delete net_down obj_by_id w0)) = obj_by_id
   \<and> stdout (snd (snd (delete net_down obj_by_id w0))) = [''connection refused'']
   \<and> fst (create (net_answer 500 PNone) obj_by_id w0) = Inr () \<and> fst (snd (create (net_answer 500 PNone) obj_by_id w0)) = obj_by_id
   \<and> response (snd (snd (create (net_answer 500 PNone) obj_by_id w0))) = Some \<lparr>status_code = 500, resp_json = Some PNone\<rparr>
   \<and> fst (read (net_answer 500 PNone) obj_by_id w0) = Inr None \<and> fst (snd (read (net_answer 500 PNone) obj_by_id w0)) = obj_by_id
   \<and> response (snd (snd (read (net_answer 500 PNone) obj_by_id w0))) = Some \<lparr>status_code = 500, resp_json = Some PNone\<rparr>
   \<and> fst (list_objects (net_answer 500 PNone) obj_by_id w0) = Inr None \<and> fst (snd (list_objects (net_answer 500 PNone) obj_by_id w0)) = obj_by_id
   \<and> response (snd (snd (list_objects (net_answer 500 PNone) obj_by_id w0))) = Some \<lparr>status_code = 500, resp_json = Some PNone\<rparr>
   \<and> fst (update (net_answer 500 PNone) obj_by_id w0) = Inr () \<and> fst (snd (update (net_answer 500 PNone) obj_by_id w0)) = obj_by_id
   \<and> response (snd (snd (update (net_answer 500 PNone) obj_by_id w0))) = Some \<lparr>status_code = 500, resp_json = Some PNone\<rparr>
   \<and> fst (delete (net_answer 500 PNone) obj_by_id w0) = Inr () \<and> fst (snd (delete (net_answer 500 PNone) obj_by_id w0)) = obj_by_id
   \<and> response (snd (snd (delete (net_answer 500 PNone) obj_by_id w0))) = Some \<lparr>status_code = 500, resp_json = Some PNone\<rparr>"
proof -
  let ?r500 = "\<lparr>status_code = 500, resp_json = Some PNone\<rparr>"
  obtain creq where creq: "create_request obj_by_id = Inr creq"
    by (simp add: create_request_def update_url_def getattr_def base_endpoint_def self_base_url_def
        self_endpoint_def id_suffix_def attr_def obj_by_id_def)
  obtain rreq where rreq: "read_request obj_by_id = Inr rreq"
    by (simp add: read_request_def update_url_def getattr_def base_endpoint_def self_base_url_def
        self_endpoint_def id_suffix_def attr_def obj_by_id_def)
  obtain lreq where lreq: "list_request obj_by_id = Inr lreq"
    by (simp add: list_request_def update_url_def getattr_def base_endpoint_def self_base_url_def
        self_endpoint_def id_suffix_def attr_def obj_by_id_def)
  obtain ureq where ureq: "update_request obj_by_id = Inr ureq"
    by (simp add: update_request_def update_url_def getattr_def base_endpoint_def self_base_url_def
        self_endpoint_def id_suffix_def attr_def obj_by_id_def)
  obtain dreq where dreq: "delete_request obj_by_id = Inr dreq"
    by (simp add: delete_request_def update_url_def getattr_def base_endpoint_def self_base_url_def
        self_endpoint_def id_suffix_def attr_def obj_by_id_def)
  have down: "\<And>q. net_down q = Inl ''connection refused''" by (simp add: net_down_def)
  have busy: "\<And>q. net_answer 500 PNone q = Inr ?r500" by (simp add: net_answer_def)
  have w: "stdout w0 = []" by (simp add: w0_def)
  note t1 = failures_leave_no_trace_on_instance
    [where net = net_down and self = obj_by_id and err = "''connection refused''" and w = w0
       and creq = creq and rreq = rreq and lreq = lreq and ureq = ureq and dreq = dreq]
  note t2 = failures_leave_no_trace_on_instance
    [where net = "net_answer 500 PNone" and self = obj_by_id and resp = ?r500 and w = w0
       and creq = creq and rreq = rreq and lreq = lreq and ureq = ureq and dreq = dreq]
  from t1 creq rreq lreq ureq dreq down w have a: "fst (create net_down obj_by_id w0) = Inr () \<and> fst (snd (create net_down obj_by_id w0)) = obj_by_id
   \<and> stdout (snd (snd (create net_down obj_by_id w0))) = [''connection refused'']
   \<and> fst (read net_down obj_by_id w0) = Inr None \<and> fst (snd (read net_down obj_by_id w0)) = obj_by_id
   \<and> stdout (snd (snd (read net_down obj_by_id w0))) = [''connection refused'']
   \<and> fst (list_objects net_down obj_by_id w0) = Inr None \<and> fst (snd (list_objects net_down obj_by_id w0)) = obj_by_id
   \<and> stdout (snd (snd (list_objects net_down obj_by_id w0))) = [''connection refused'']
   \<and> fst (update net_down obj_by_id w0) = Inr () \<and> fst (snd (update net_down obj_by_id w0)) = obj_by_id
   \<and> stdout (snd (snd (update net_down obj_by_id w0))) = [''connection refused'']
   \<and> fst (delete net_down obj_by_id w0) = Inr () \<and> fst (snd (delete net_down obj_by_id w0)) = obj_by_id
   \<and> stdout (snd (snd (delete net_down obj_by_id w0))) = [''connection refused'']"
    by simp
  from t2 creq rreq lreq ureq dreq busy have b: "fst (create (net_answer 500 PNone) obj_by_id w0) = Inr () \<and> fst (snd (create (net_answer 500 PNone) obj_by_id w0)) = obj_by_id
   \<and> response (snd (snd (create (net_answer 500 PNone) obj_by_id w0))) = Some \<lparr>status_code = 500, resp_json = Some PNone\<rparr>
   \<and> fst (read (net_answer 500 PNone) obj_by_id w0) = Inr None \<and> fst (snd (read (net_answer 500 PNone) obj_by_id w0)) = obj_by_id
   \<and> response (snd (snd (read (net_answer 500 PNone) obj_by_id w0))) = Some \<lparr>status_code = 500, resp_json = Some PNone\<rparr>
   \<and> fst (list_objects (net_answer 500 PNone) obj_by_id w0) = Inr None \<and> fst (snd (list_objects (net_answer 500 PNone) obj_by_id w0)) = obj_by_id
   \<and> response (snd (snd (list_objects (net_answer 500 PNone) obj_by_id w0))) = Some \<lparr>status_code = 500, resp_json = Some PNone\<rparr>
   \<and> fst (update (net_answer 500 PNone) obj_by_id w0) = Inr () \<and> fst (snd (update (net_answer 500 PNone) obj_by_id w0)) = obj_by_id
   \<and> response (snd (snd (update (net_answer 500 PNone) obj_by_id w0))) = Some \<lparr>status_code = 500, resp_json = Some PNone\<rparr>
   \<and> fst (delete (net_answer 500 PNone) obj_by_id w0) = Inr () \<and> fst (snd (delete (net_answer 500 PNone) obj_by_id w0)) = obj_by_id
   \<and> response (snd (snd (delete (net_answer 500 PNone) obj_by_id w0))) = Some \<lparr>status_code = 500, resp_json = Some PNone\<rparr>"
    by simp
  from a b show ?thesis by blast
qed

section \<open>A 200 response without the expected data\<close>

text \<open>
  Claim C9. For an entity looked up by \<^verbatim>\<open>name\<close> (no \<^verbatim>\<open>id\<close>), a 200 response whose JSON body
  has an empty \<^verbatim>\<open>data\<close> array makes read raise \<^verbatim>\<open>IndexError\<close> to the caller (from
  \<^verbatim>\<open>result["data"][0]\<close>), and a 200 body without the key \<^verbatim>\<open>data\<close> makes read by name and
  list raise \<^verbatim>\<open>KeyError('data')\<close>.
\<close>

theorem malformed_200_body_raises:
  "(attr self ''id'' = None \<and> attr self ''name'' = Some n \<and> read_request self = Inr req
      \<and> net req = Inr resp \<and> status_code resp = 200 \<and> resp_json resp = Some (PDict b) \<longrightarrow>
        (map_of b ''data'' = Some (PList []) \<longrightarrow> fst (read net self w) = Inl IndexError)
        \<and> (map_of b ''data'' = None \<longrightarrow> fst (read net self w) = Inl (KeyError (PStr ''data''))))
   \<and> (list_request self = Inr lreq \<and> net lreq = Inr resp \<and> status_code resp = 200
      \<and> resp_json resp = Some (PDict b) \<and> map_of b ''data'' = None \<longrightarrow>
        fst (list_objects net self w) = Inl (KeyError (PStr ''data'')))"
proof -
  have rd: "attr self ''id'' = None \<and> attr self ''name'' = Some n \<and> read_request self = Inr req
      \<and> net req = Inr resp \<and> status_code resp = 200 \<and> resp_json resp = Some (PDict b) \<longrightarrow>
        (map_of b ''data'' = Some (PList []) \<longrightarrow> fst (read net self w) = Inl IndexError)
        \<and> (map_of b ''data'' = None \<longrightarrow> fst (read net self w) = Inl (KeyError (PStr ''data'')))"
    by (simp add: read_def Let_def send_answers hasattr_def seq_index_def)
  have ls: "list_request self = Inr lreq \<and> net lreq = Inr resp \<and> status_code resp = 200
      \<and> resp_json resp = Some (PDict b) \<and> map_of b ''data'' = None \<longrightarrow>
        fst (list_objects net self w) = Inl (KeyError (PStr ''data''))"
    by (simp add: list_objects_def Let_def send_answers)
  from rd ls show ?thesis by blast
qed

theorem malformed_200_body_raises_witness:
  "attr obj_by_name ''id'' = None \<and> attr obj_by_name ''name'' = Some (PStr ''y'')
   \<and> fst (read (net_answer 200 (PDict [(''data'', PList [])])) obj_by_name w0) = Inl IndexError
   \<and> fst (read (net_answer 200 (PDict [])) obj_by_name w0) = Inl (KeyError (PStr ''data''))
   \<and> fst (list_objects (net_answer 200 (PDict [])) obj_by_name w0) = Inl (KeyError (PStr ''data''))"
proof -
  have a: "attr obj_by_name ''id'' = None" "attr obj_by_name ''name'' = Some (PStr ''y'')"
    by (simp_all add: attr_def obj_by_name_def)
  obtain req where r: "read_request obj_by_name = Inr req"
    by (simp add: read_request_def base_endpoint_def self_base_url_def self_endpoint_def
        attr_def obj_by_name_def)
  obtain lreq where l: "list_request obj_by_name = Inr lreq"
    by (simp add: list_request_def base_endpoint_def self_base_url_def self_endpoint_def
        attr_def obj_by_name_def)
  have n: "\<And>body q. net_answer 200 body q = Inr \<lparr>status_code = 200, resp_json = Some body\<rparr>"
    by (simp add: net_answer_def)
  note t1 = malformed_200_body_raises
    [where self = obj_by_name and n = "PStr ''y''" and req = req and lreq = lreq and w = w0
       and net = "net_answer 200 (PDict [(''data'', PList [])])"
       and resp = "\<lparr>status_code = 200, resp_json = Some (PDict [(''data'', PList [])])\<rparr>"
       and b = "[(''data'', PList [])]"]
  note t2 = malformed_200_body_raises
    [where self = obj_by_name and n = "PStr ''y''" and req = req and lreq = lreq and w = w0
       and net = "net_answer 200 (PDict [])"
       and resp = "\<lparr>status_code = 200, resp_json = Some (PDict [])\<rparr>"
       and b = "[]"]
  from t1 a r n
  have 1: "fst (read (net_answer 200 (PDict [(''data'', PList [])])) obj_by_name w0) = Inl IndexError"
    by simp
  from t2 a r l n
  have 2: "fst (read (net_answer 200 (PDict [])) obj_by_name w0) = Inl (KeyError (PStr ''data''))"
    "fst (list_objects (net_answer 200 (PDict [])) obj_by_name w0) = Inl (KeyError (PStr ''data''))"
    by simp_all
  from a 1 2 show ?thesis by simp
qed

section \<open>A 201 response without an id\<close>

text \<open>
  Claim C10. When create receives a 201 response whose JSON body is a dictionary without
  \<^verbatim>\<open>id\<close>, \<^verbatim>\<open>self.id\<close> is set to \<^verbatim>\<open>None\<close> (\<^verbatim>\<open>dict.get\<close>), so the instance has the attribute:
  read, update and delete on it then target the value of
  \<^verbatim>\<open>self._base_url + self._endpoint + "/None"\<close>, where \<^verbatim>\<open>self._base_url + self._endpoint\<close> is
  what create posted to; read sends no \<^verbatim>\<open>name\<close> parameter and delete does not fail on a
  missing \<^verbatim>\<open>id\<close>. When create posted to a string \<open>u\<close> that is \<open>u\<close> + \<^verbatim>\<open>"/None"\<close>, and \<open>u\<close> is base +
  endpoint of the class unless an instance attribute overrides one of them.
\<close>

theorem create_without_id_in_body_sets_none:
  assumes req: "create_request self = Inr req"
    and net: "net req = Inr resp"
    and created: "status_code resp = 201"
    and body: "resp_json resp = Some (PDict b)"
    and no_id: "map_of b ''id'' = None"
  shows "fst (create net self w) = Inr ()
    \<and> fst (snd (create net self w)) = setattr self ''id'' PNone
    \<and> attr (setattr self ''id'' PNone) ''id'' = Some PNone
    \<and> hasattr (setattr self ''id'' PNone) ''id''
    \<and> read_request (setattr self ''id'' PNone) =
        (case py_add (url req) (PStr ''/None'') of
           Inl e \<Rightarrow> Inl e
         | Inr u' \<Rightarrow>
             Inr \<lparr>verb = GET, url = u', headers = None,
                  params = (case attr self ''folder'' of
                              Some folder \<Rightarrow> [(''folder'', folder)] | None \<Rightarrow> []),
                  json = None\<rparr>)
    \<and> update_request (setattr self ''id'' PNone) =
        (case py_add (url req) (PStr ''/None'') of
           Inl e \<Rightarrow> Inl e
         | Inr u' \<Rightarrow>
             Inr \<lparr>verb = PUT, url = u', headers = Some content_type,
                  params = (case attr self ''folder'' of
                              Some folder \<Rightarrow> [(''folder'', folder)] | None \<Rightarrow> []),
                  json = Some (payload (setattr self ''id'' PNone))\<rparr>)
    \<and> delete_request (setattr self ''id'' PNone) =
        (case py_add (url req) (PStr ''/None'') of
           Inl e \<Rightarrow> Inl e
         | Inr u' \<Rightarrow>
             Inr \<lparr>verb = DELETE, url = u', headers = Some content_type,
                  params = (case attr self ''folder'' of
                              Some folder \<Rightarrow> [(''folder'', folder)] | None \<Rightarrow> []),
                  json = None\<rparr>)
    \<and> (url req = PStr u \<longrightarrow> py_add (url req) (PStr ''/None'') = Inr (PStr (u @ ''/None'')))
    \<and> (attr self ''_base_url'' = None \<and> attr self ''_endpoint'' = None \<longrightarrow>
          url req = PStr (base_url (cls self) @ endpoint (cls self)))"
proof -
  let ?s = "setattr self ''id'' PNone"
  from req have be: "base_endpoint self = Inr (url req)"
    by (rule create_request_url)
  then have be': "base_endpoint ?s = Inr (url req)"
    by (simp add: base_endpoint_setattr_id)
  have c: "fst (create net self w) = Inr ()" "fst (snd (create net self w)) = ?s"
    using req net created body no_id by (simp_all add: create_def Let_def send_answers)
  have a: "attr ?s ''id'' = Some PNone" "hasattr ?s ''id''"
    by (simp_all add: hasattr_def attr_setattr)
  have r: "read_request ?s =
        (case py_add (url req) (PStr ''/None'') of
           Inl e \<Rightarrow> Inl e
         | Inr u' \<Rightarrow>
             Inr \<lparr>verb = GET, url = u', headers = None,
                  params = (case attr self ''folder'' of
                              Some folder \<Rightarrow> [(''folder'', folder)] | None \<Rightarrow> []),
                  json = None\<rparr>)"
    using be' by (simp add: read_request_def attr_setattr id_suffix_def split: sum.split)
  have up: "update_request ?s =
        (case py_add (url req) (PStr ''/None'') of
           Inl e \<Rightarrow> Inl e
         | Inr u' \<Rightarrow>
             Inr \<lparr>verb = PUT, url = u', headers = Some content_type,
                  params = (case attr self ''folder'' of
                              Some folder \<Rightarrow> [(''folder'', folder)] | None \<Rightarrow> []),
                  json = Some (payload ?s)\<rparr>)"
    using be' by (simp add: update_request_def update_url_def attr_setattr id_suffix_def split: sum.split)
  have d: "delete_request ?s =
        (case py_add (url req) (PStr ''/None'') of
           Inl e \<Rightarrow> Inl e
         | Inr u' \<Rightarrow>
             Inr \<lparr>verb = DELETE, url = u', headers = Some content_type,
                  params = (case attr self ''folder'' of
                              Some folder \<Rightarrow> [(''folder'', folder)] | None \<Rightarrow> []),
                  json = None\<rparr>)"
    using be' by (simp add: delete_request_def getattr_def attr_setattr id_suffix_def split: sum.split)
  have st: "url req = PStr u \<longrightarrow> py_add (url req) (PStr ''/None'') = Inr (PStr (u @ ''/None''))"
    by simp
  have cl: "attr self ''_base_url'' = None \<and> attr self ''_endpoint'' = None \<longrightarrow>
          url req = PStr (base_url (cls self) @ endpoint (cls self))"
    using be by (auto simp: base_endpoint_class)
  from c a r up d st cl show ?thesis by blast
qed

theorem create_without_id_in_body_sets_none_witness:
  "(\<exists>req. create_request obj_by_name = Inr req
      \<and> url req = PStr ''https://api.sase.paloaltonetworks.com/sse/config/v1/addresses''
      \<and> net_answer 201 (PDict []) req = Inr \<lparr>status_code = 201, resp_json = Some (PDict [])\<rparr>)
   \<and> attr obj_by_name ''id'' = None
   \<and> fst (snd (create (net_answer 201 (PDict [])) obj_by_name w0))
       = \<lparr>cls = addresses, attrs = [(''name'', PStr ''y''), (''id'', PNone)]\<rparr>
   \<and> read_request \<lparr>cls = addresses, attrs = [(''name'', PStr ''y''), (''id'', PNone)]\<rparr>
       = Inr \<lparr>verb = GET,
              url = PStr ''https://api.sase.paloaltonetworks.com/sse/config/v1/addresses/None'',
              headers = None, params = [], json = None\<rparr>
   \<and> (\<exists>q. update_request \<lparr>cls = addresses, attrs = [(''name'', PStr ''y''), (''id'', PNone)]\<rparr> = Inr q
        \<and> verb q = PUT
        \<and> url q = PStr ''https://api.sase.paloaltonetworks.com/sse/config/v1/addresses/None'')
   \<and> (\<exists>q. delete_request \<lparr>cls = addresses, attrs = [(''name'', PStr ''y''), (''id'', PNone)]\<rparr> = Inr q
        \<and> verb q = DELETE
        \<and> url q = PStr ''https://api.sase.paloaltonetworks.com/sse/config/v1/addresses/None'')
   \<and> (\<exists>req. create_request obj_evil_name = Inr req
        \<and> url req = PStr ''https://api.sase.paloaltonetworks.com/evil'')
   \<and> (\<exists>q. read_request (fst (snd (create (net_answer 201 (PDict [])) obj_evil_name w0))) = Inr q
        \<and> url q = PStr ''https://api.sase.paloaltonetworks.com/evil/None'')"
proof -
  let ?net = "net_answer 201 (PDict [])"
  let ?resp = "\<lparr>status_code = 201, resp_json = Some (PDict [])\<rparr>"
  let ?u = "''https://api.sase.paloaltonetworks.com/sse/config/v1/addresses''"
  let ?e = "''https://api.sase.paloaltonetworks.com/evil''"
  obtain req where r: "create_request obj_by_name = Inr req" and u: "url req = PStr ?u"
    by (simp add: create_request_def base_endpoint_def self_base_url_def self_endpoint_def
        attr_def obj_by_name_def addresses_def PanObject_base_url_def)
  obtain req' where r': "create_request obj_evil_name = Inr req'" and u': "url req' = PStr ?e"
    by (simp add: create_request_def base_endpoint_def self_base_url_def self_endpoint_def
        attr_def obj_evil_name_def addresses_def PanObject_base_url_def)
  have n: "\<And>q. ?net q = Inr ?resp" by (simp add: net_answer_def)
  have s: "setattr obj_by_name ''id'' PNone
      = \<lparr>cls = addresses, attrs = [(''name'', PStr ''y''), (''id'', PNone)]\<rparr>"
    by (simp add: setattr_def dict_set_def obj_by_name_def)
  have i: "attr obj_by_name ''id'' = None" "attr obj_by_name ''folder'' = None"
    by (simp_all add: attr_def obj_by_name_def)
  note t = create_without_id_in_body_sets_none
    [of obj_by_name req ?net ?resp "[]" w0 ?u, OF r n]
  note t' = create_without_id_in_body_sets_none
    [of obj_evil_name req' ?net ?resp "[]" w0 ?e, OF r' n]
  from t s i u have 1: "fst (snd (create ?net obj_by_name w0))
       = \<lparr>cls = addresses, attrs = [(''name'', PStr ''y''), (''id'', PNone)]\<rparr>"
    "read_request \<lparr>cls = addresses, attrs = [(''name'', PStr ''y''), (''id'', PNone)]\<rparr>
       = Inr \<lparr>verb = GET, url = PStr (?u @ ''/None''), headers = None, params = [], json = None\<rparr>"
    "\<exists>q. update_request \<lparr>cls = addresses, attrs = [(''name'', PStr ''y''), (''id'', PNone)]\<rparr> = Inr q
        \<and> verb q = PUT \<and> url q = PStr (?u @ ''/None'')"
    "\<exists>q. delete_request \<lparr>cls = addresses, attrs = [(''name'', PStr ''y''), (''id'', PNone)]\<rparr> = Inr q
        \<and> verb q = DELETE \<and> url q = PStr (?u @ ''/None'')"
    by simp_all
  from t' u' have 2: "\<exists>q. read_request (fst (snd (create ?net obj_evil_name w0))) = Inr q
        \<and> url q = PStr (?e @ ''/None'')"
    by simp
  from r u n i(1) 1 r' u' 2 show ?thesis by simp
qed

section \<open>read\<close>

lemma read_by_id:
  assumes "attr self ''id'' = Some i" "read_request self = Inr req" "net req = Inr resp"
    "status_code resp = 200" "resp_json resp = Some body"
  shows "read net self w = (map_sum id Some (construct (cls self) body), self,
           (ensure_session w)\<lparr>sent := sent w @ [req], response := Some resp\<rparr>)"
  using assms by (simp add: read_def Let_def send_answers hasattr_def sent_ensure_session)

lemma read_by_name:
  assumes "attr self ''id'' = None" "attr self ''name'' = Some n" "read_request self = Inr req"
    "net req = Inr resp" "status_code resp = 200" "resp_json resp = Some (PDict b)"
    "map_of b ''data'' = Some (PList (config # rest))"
  shows "read net self w = (map_sum id Some (construct (cls self) config), self,
           (ensure_session w)\<lparr>sent := sent w @ [req], response := Some resp\<rparr>)"
  using assms by (simp add: read_def Let_def send_answers hasattr_def sent_ensure_session seq_index_def)

lemma py_format_int_example: "py_format (PInt (- 120)) = ''-120''"
  by code_simp

lemma py_format_list_example:
  "py_format (PList [PInt 7, PBool False, PNone,
       PDict [(''k'', PStr [CHR ''a'', char_of (39 :: nat), char_of (160 :: nat), char_of (233 :: nat)])]])
   = [CHR ''['', CHR ''7'', CHR '','', CHR '' '', CHR ''F'', CHR ''a'', CHR ''l'', CHR ''s'', CHR ''e'',
      CHR '','', CHR '' '', CHR ''N'', CHR ''o'', CHR ''n'', CHR ''e'', CHR '','', CHR '' '',
      CHR ''{'', char_of (39 :: nat), CHR ''k'', char_of (39 :: nat), CHR '':'', CHR '' '',
      char_of (34 :: nat), CHR ''a'', char_of (39 :: nat), char_of (92 :: nat), CHR ''x'', CHR ''a'',
      CHR ''0'', char_of (233 :: nat), char_of (34 :: nat), CHR ''}'', CHR '']'']"
  by code_simp

text \<open>
  Claim C4, as stated, fails on an entity with \<^verbatim>\<open>id = "x"\<close> whose \<^verbatim>\<open>_endpoint\<close> is overridden
  by the integer 5: \<^verbatim>\<open>self._base_url + self._endpoint\<close> raises \<^verbatim>\<open>TypeError\<close> on line 83, read
  lets it through and no GET is issued.
\<close>

theorem read_with_id_type_error:
  "attr obj_int_endpoint_id ''id'' = Some (PStr ''x'')
   \<and> read (net_answer 200 (PDict [(''id'', PStr ''x'')])) obj_int_endpoint_id w0
       = (Inl TypeError, obj_int_endpoint_id, reauthenticate w0)
   \<and> sent (reauthenticate w0) = []"
  by (simp add: read_def read_request_def base_endpoint_def self_base_url_def self_endpoint_def
      attr_def obj_int_endpoint_id_def ensure_session_def reauthenticate_def w0_def)

text \<open>
  Claim C4, amended. Let \<^verbatim>\<open>self._base_url + self._endpoint\<close> be a string \<open>u\<close> (base + endpoint
  of the class unless an instance attribute overrides one of them). With \<^verbatim>\<open>id\<close> set
  (whether or not \<^verbatim>\<open>name\<close> is), read issues a GET to \<open>u\<close> + \<^verbatim>\<open>"/"\<close> + the formatted id, where a
  string id stands for itself, \<^verbatim>\<open>None\<close> is \<^verbatim>\<open>None\<close>, a boolean \<^verbatim>\<open>True\<close> or \<^verbatim>\<open>False\<close>, an
  integer its decimal numeral and a list or dictionary its \<^verbatim>\<open>repr\<close>; the parameters are the
  \<^verbatim>\<open>folder\<close> scope alone, with no \<^verbatim>\<open>name\<close>, and on status 200 read returns
  \<^verbatim>\<open>type(self)(**body)\<close> for the full JSON body: for a body that is a keyword dictionary, a
  new instance of the class of \<^verbatim>\<open>self\<close> whose attributes are the body. With \<^verbatim>\<open>name\<close> set and
  \<^verbatim>\<open>id\<close> unset, read issues a GET to the value of \<^verbatim>\<open>self._base_url + self._endpoint\<close> whose
  parameters are the \<^verbatim>\<open>folder\<close> scope, if any, followed by \<^verbatim>\<open>name\<close>, and on status 200 with a
  non-empty \<^verbatim>\<open>data\<close> list it returns \<^verbatim>\<open>type(self)(**data[0])\<close>. The instance itself is
  unchanged and exactly that one request is sent.
\<close>

theorem read_by_id_before_name:
  "(base_endpoint self = Inr (PStr u) \<and> attr self ''id'' = Some i \<longrightarrow>
      read_request self =
        Inr \<lparr>verb = GET, url = PStr (u @ ''/'' @ py_format i), headers = None,
             params = (case attr self ''folder'' of Some folder \<Rightarrow> [(''folder'', folder)] | None \<Rightarrow> []),
             json = None\<rparr>
      \<and> (read_request self = Inr req \<longrightarrow> map_of (params req) ''name'' = None)
      \<and> (read_request self = Inr req \<and> net req = Inr resp \<and> status_code resp = 200
            \<and> resp_json resp = Some body \<longrightarrow>
          fst (read net self w) = map_sum id Some (construct (cls self) body)
          \<and> fst (snd (read net self w)) = self
          \<and> sent (snd (snd (read net self w))) = sent w @ [req]
          \<and> (body = PDict d \<and> wf_dict d \<and> ''self'' \<notin> fst ` set d \<longrightarrow>
               fst (read net self w) = Inr (Some \<lparr>cls = cls self, attrs = d\<rparr>))))
   \<and> py_format (PStr s) = s \<and> py_format PNone = ''None''
   \<and> py_format (PBool True) = ''True'' \<and> py_format (PBool False) = ''False''
   \<and> py_format (PInt k) = str_int k \<and> py_format (PInt (- 120)) = ''-120''
   \<and> py_format (PList [PInt 7, PBool False, PNone,
       PDict [(''k'', PStr [CHR ''a'', char_of (39 :: nat), char_of (160 :: nat), char_of (233 :: nat)])]])
       = [CHR ''['', CHR ''7'', CHR '','', CHR '' '', CHR ''F'', CHR ''a'', CHR ''l'', CHR ''s'', CHR ''e'',
      CHR '','', CHR '' '', CHR ''N'', CHR ''o'', CHR ''n'', CHR ''e'', CHR '','', CHR '' '',
      CHR ''{'', char_of (39 :: nat), CHR ''k'', char_of (39 :: nat), CHR '':'', CHR '' '',
      char_of (34 :: nat), CHR ''a'', char_of (39 :: nat), char_of (92 :: nat), CHR ''x'', CHR ''a'',
      CHR ''0'', char_of (233 :: nat), char_of (34 :: nat), CHR ''}'', CHR '']'']
   \<and> py_format (PList xs) = ''['' @ join '', '' (map py_repr xs) @ '']''
   \<and> py_format (PDict kvs) =
        ''{'' @ join '', '' (map (\<lambda>kv. repr_str (fst kv) @ '': '' @ py_repr (snd kv)) kvs) @ ''}''
   \<and> (base_endpoint self = Inr v \<and> attr self ''id'' = None \<and> attr self ''name'' = Some n \<longrightarrow>
      read_request self =
        Inr \<lparr>verb = GET, url = v, headers = None,
             params = (case attr self ''folder'' of
                         Some folder \<Rightarrow> [(''folder'', folder), (''name'', n)]
                       | None \<Rightarrow> [(''name'', n)]),
             json = None\<rparr>
      \<and> (read_request self = Inr req \<longrightarrow> map_of (params req) ''name'' = Some n)
      \<and> (read_request self = Inr req \<and> net req = Inr resp \<and> status_code resp = 200
            \<and> resp_json resp = Some (PDict b) \<and> map_of b ''data'' = Some (PList (config # rest)) \<longrightarrow>
          fst (read net self w) = map_sum id Some (construct (cls self) config)
          \<and> fst (snd (read net self w)) = self
          \<and> sent (snd (snd (read net self w))) = sent w @ [req]
          \<and> (config = PDict d \<and> wf_dict d \<and> ''self'' \<notin> fst ` set d \<longrightarrow>
               fst (read net self w) = Inr (Some \<lparr>cls = cls self, attrs = d\<rparr>))))
   \<and> (attr self ''_base_url'' = None \<and> attr self ''_endpoint'' = None \<longrightarrow>
        base_endpoint self = Inr (PStr (base_url (cls self) @ endpoint (cls self))))"
proof -
  have id_req: "base_endpoint self = Inr (PStr u) \<and> attr self ''id'' = Some i \<longrightarrow>
      read_request self =
        Inr \<lparr>verb = GET, url = PStr (u @ ''/'' @ py_format i), headers = None,
             params = (case attr self ''folder'' of Some folder \<Rightarrow> [(''folder'', folder)] | None \<Rightarrow> []),
             json = None\<rparr>"
    by (simp add: read_request_def id_suffix_def)
  have id_noname: "base_endpoint self = Inr (PStr u) \<and> attr self ''id'' = Some i \<longrightarrow>
      read_request self = Inr req \<longrightarrow> map_of (params req) ''name'' = None"
    using id_req by (auto split: option.splits)
  have id_ret: "attr self ''id'' = Some i \<longrightarrow>
      read_request self = Inr req \<and> net req = Inr resp \<and> status_code resp = 200
            \<and> resp_json resp = Some body \<longrightarrow>
          fst (read net self w) = map_sum id Some (construct (cls self) body)
          \<and> fst (snd (read net self w)) = self
          \<and> sent (snd (snd (read net self w))) = sent w @ [req]
          \<and> (body = PDict d \<and> wf_dict d \<and> ''self'' \<notin> fst ` set d \<longrightarrow>
               fst (read net self w) = Inr (Some \<lparr>cls = cls self, attrs = d\<rparr>))"
    by (simp add: read_by_id PanObject_init_wf)
  have fmt: "py_format (PStr s) = s" "py_format PNone = ''None''"
    "py_format (PBool True) = ''True''" "py_format (PBool False) = ''False''"
    "py_format (PInt k) = str_int k"
    "py_format (PList xs) = ''['' @ join '', '' (map py_repr xs) @ '']''"
    "py_format (PDict kvs) =
        ''{'' @ join '', '' (map (\<lambda>kv. repr_str (fst kv) @ '': '' @ py_repr (snd kv)) kvs) @ ''}''"
    by simp_all
  have nm_req: "base_endpoint self = Inr v \<and> attr self ''id'' = None \<and> attr self ''name'' = Some n \<longrightarrow>
      read_request self =
        Inr \<lparr>verb = GET, url = v, headers = None,
             params = (case attr self ''folder'' of
                         Some folder \<Rightarrow> [(''folder'', folder), (''name'', n)]
                       | None \<Rightarrow> [(''name'', n)]),
             json = None\<rparr>"
    by (simp add: read_request_def dict_set_def split: option.split)
  have nm_name: "base_endpoint self = Inr v \<and> attr self ''id'' = None \<and> attr self ''name'' = Some n \<longrightarrow>
      read_request self = Inr req \<longrightarrow> map_of (params req) ''name'' = Some n"
    using nm_req by (auto split: option.splits)
  have nm_ret: "attr self ''id'' = None \<and> attr self ''name'' = Some n \<longrightarrow>
      read_request self = Inr req \<and> net req = Inr resp \<and> status_code resp = 200
            \<and> resp_json resp = Some (PDict b) \<and> map_of b ''data'' = Some (PList (config # rest)) \<longrightarrow>
          fst (read net self w) = map_sum id Some (construct (cls self) config)
          \<and> fst (snd (read net self w)) = self
          \<and> sent (snd (snd (read net self w))) = sent w @ [req]
          \<and> (config = PDict d \<and> wf_dict d \<and> ''self'' \<notin> fst ` set d \<longrightarrow>
               fst (read net self w) = Inr (Some \<lparr>cls = cls self, attrs = d\<rparr>))"
    by (simp add: read_by_name PanObject_init_wf)
  have cl: "attr self ''_base_url'' = None \<and> attr self ''_endpoint'' = None \<longrightarrow>
        base_endpoint self = Inr (PStr (base_url (cls self) @ endpoint (cls self)))"
    by (simp add: base_endpoint_class)
  from id_req id_noname id_ret fmt py_format_int_example py_format_list_example
    nm_req nm_name nm_ret cl
  show ?thesis by blast
qed

theorem read_by_id_before_name_witness:
  "attr obj_by_id ''id'' = Some (PStr ''x'') \<and> attr obj_by_id ''name'' = Some (PStr ''y'')
   \<and> base_endpoint obj_by_id
       = Inr (PStr ''https://api.sase.paloaltonetworks.com/sse/config/v1/addresses'')
   \<and> sent (snd (snd (read (net_answer 200 (PDict [(''id'', PStr ''x''), (''name'', PStr ''y''),
         (''folder'', PStr ''Shared'')])) obj_by_id w0)))
       = [\<lparr>verb = GET,
           url = PStr ''https://api.sase.paloaltonetworks.com/sse/config/v1/addresses/x'',
           headers = None, params = [], json = None\<rparr>]
   \<and> fst (read (net_answer 200 (PDict [(''id'', PStr ''x''), (''name'', PStr ''y''),
         (''folder'', PStr ''Shared'')])) obj_by_id w0)
       = Inr (Some \<lparr>cls = addresses, attrs = [(''id'', PStr ''x''), (''name'', PStr ''y''),
           (''folder'', PStr ''Shared'')]\<rparr>)
   \<and> base_endpoint obj_evil = Inr (PStr ''https://api.sase.paloaltonetworks.com/evil'')
   \<and> read_request obj_evil
       = Inr \<lparr>verb = GET, url = PStr ''https://api.sase.paloaltonetworks.com/evil/x'',
              headers = None, params = [], json = None\<rparr>
   \<and> read_request obj_int_id
       = Inr \<lparr>verb = GET,
              url = PStr ''https://api.sase.paloaltonetworks.com/sse/config/v1/addresses/-120'',
              headers = None, params = [], json = None\<rparr>
   \<and> attr obj_by_name ''id'' = None \<and> attr obj_by_name ''name'' = Some (PStr ''y'')
   \<and> sent (snd (snd (read (net_answer 200 (PDict [(''data'', PList [PDict [(''id'', PStr ''7''),
         (''name'', PStr ''y'')]])])) obj_by_name w0)))
       = [\<lparr>verb = GET,
           url = PStr ''https://api.sase.paloaltonetworks.com/sse/config/v1/addresses'',
           headers = None, params = [(''name'', PStr ''y'')], json = None\<rparr>]
   \<and> fst (read (net_answer 200 (PDict [(''data'', PList [PDict [(''id'', PStr ''7''),
         (''name'', PStr ''y'')]])])) obj_by_name w0)
       = Inr (Some \<lparr>cls = addresses, attrs = [(''id'', PStr ''7''), (''name'', PStr ''y'')]\<rparr>)"
proof -
  let ?u = "''https://api.sase.paloaltonetworks.com/sse/config/v1/addresses''"
  let ?e = "''https://api.sase.paloaltonetworks.com/evil''"
  let ?d1 = "[(''id'', PStr ''x''), (''name'', PStr ''y''), (''folder'', PStr ''Shared'')]"
  let ?d2 = "[(''id'', PStr ''7''), (''name'', PStr ''y'')]"
  let ?b2 = "[(''data'', PList [PDict ?d2])]"
  let ?q1 = "\<lparr>verb = GET, url = PStr (?u @ ''/x''), headers = None, params = [], json = None\<rparr>"
  let ?q2 = "\<lparr>verb = GET, url = PStr ?u, headers = None, params = [(''name'', PStr ''y'')],
           json = None\<rparr>"
  have a1: "attr obj_by_id ''id'' = Some (PStr ''x'')" "attr obj_by_id ''name'' = Some (PStr ''y'')"
    "attr obj_by_id ''folder'' = None" "attr obj_by_id ''_base_url'' = None"
    "attr obj_by_id ''_endpoint'' = None"
    by (simp_all add: attr_def obj_by_id_def)
  have a2: "attr obj_by_name ''id'' = None" "attr obj_by_name ''name'' = Some (PStr ''y'')"
    "attr obj_by_name ''folder'' = None" "attr obj_by_name ''_base_url'' = None"
    "attr obj_by_name ''_endpoint'' = None"
    by (simp_all add: attr_def obj_by_name_def)
  have a3: "attr obj_evil ''id'' = Some (PStr ''x'')" "attr obj_evil ''folder'' = None"
    by (simp_all add: attr_def obj_evil_def)
  have a4: "attr obj_int_id ''id'' = Some (PInt (- 120))" "attr obj_int_id ''folder'' = None"
    "attr obj_int_id ''_base_url'' = None" "attr obj_int_id ''_endpoint'' = None"
    by (simp_all add: attr_def obj_int_id_def)
  have c: "base_url (cls obj_by_id) @ endpoint (cls obj_by_id) = ?u"
    "base_url (cls obj_by_name) @ endpoint (cls obj_by_name) = ?u"
    "base_url (cls obj_int_id) @ endpoint (cls obj_int_id) = ?u"
    "cls obj_by_id = addresses" "cls obj_by_name = addresses" "sent w0 = []"
    by (simp_all add: obj_by_id_def obj_by_name_def obj_int_id_def w0_def addresses_def
        PanObject_base_url_def)
  have be3: "base_endpoint obj_evil = Inr (PStr ?e)"
    by (simp add: base_endpoint_def self_base_url_def self_endpoint_def attr_def obj_evil_def
        addresses_def PanObject_base_url_def)
  have n: "\<And>body q. net_answer 200 body q = Inr \<lparr>status_code = 200, resp_json = Some body\<rparr>"
    by (simp add: net_answer_def)
  have wf: "wf_dict ?d1" "''self'' \<notin> fst ` set ?d1" "wf_dict ?d2" "''self'' \<notin> fst ` set ?d2"
    by (simp_all add: wf_dict_def)
  note t1 = read_by_id_before_name
    [where self = obj_by_id and u = ?u and i = "PStr ''x''" and s = "''x''" and req = ?q1
       and net = "net_answer 200 (PDict ?d1)"
       and resp = "\<lparr>status_code = 200, resp_json = Some (PDict ?d1)\<rparr>"
       and body = "PDict ?d1" and d = ?d1 and w = w0]
  note t2 = read_by_id_before_name
    [where self = obj_by_name and v = "PStr ?u" and n = "PStr ''y''" and req = ?q2
       and net = "net_answer 200 (PDict ?b2)"
       and resp = "\<lparr>status_code = 200, resp_json = Some (PDict ?b2)\<rparr>"
       and b = ?b2 and config = "PDict ?d2" and rest = "[]" and d = ?d2 and w = w0]
  note t3 = read_by_id_before_name [where self = obj_evil and u = ?e and i = "PStr ''x''"]
  note t4 = read_by_id_before_name [where self = obj_int_id and u = ?u and i = "PInt (- 120)"]
  from t1 a1 c have be1: "base_endpoint obj_by_id = Inr (PStr ?u)" by simp
  from t2 a2 c have be2: "base_endpoint obj_by_name = Inr (PStr ?u)" by simp
  from t4 a4 c have be4: "base_endpoint obj_int_id = Inr (PStr ?u)" by simp
  from t1 a1 be1 have q1: "read_request obj_by_id = Inr ?q1" by simp
  from t2 a2 be2 have q2: "read_request obj_by_name = Inr ?q2" by simp
  from t3 a3 be3 have q3: "read_request obj_evil
       = Inr \<lparr>verb = GET, url = PStr (?e @ ''/x''), headers = None, params = [], json = None\<rparr>"
    by simp
  from t4 a4 be4 have q4: "read_request obj_int_id
       = Inr \<lparr>verb = GET, url = PStr (?u @ ''/-120''), headers = None, params = [], json = None\<rparr>"
    by simp
  from t1 a1 be1 q1 n wf c
  have r1: "sent (snd (snd (read (net_answer 200 (PDict ?d1)) obj_by_id w0))) = [?q1]"
    "fst (read (net_answer 200 (PDict ?d1)) obj_by_id w0) = Inr (Some \<lparr>cls = addresses, attrs = ?d1\<rparr>)"
    by (simp_all add: PanObject_init_wf)
  from t2 a2 be2 q2 n wf c
  have r2: "sent (snd (snd (read (net_answer 200 (PDict ?b2)) obj_by_name w0))) = [?q2]"
    "fst (read (net_answer 200 (PDict ?b2)) obj_by_name w0) = Inr (Some \<lparr>cls = addresses, attrs = ?d2\<rparr>)"
    by (simp_all add: PanObject_init_wf)
  from a1(1,2) a2(1,2) be1 be3 q3 q4 r1 r2 show ?thesis by simp
qed

section \<open>list\<close>

lemma construct_all_wf:
  "\<forall>x \<in> set ds. \<exists>d. x = PDict d \<and> wf_dict d \<and> ''self'' \<notin> fst ` set d \<Longrightarrow>
   \<exists>objs. construct_all c acc ds = Inr (acc @ objs) \<and> length objs = length ds
     \<and> (\<forall>i < length ds. cls (objs ! i) = c \<and> PDict (attrs (objs ! i)) = ds ! i)"
proof (induction ds arbitrary: acc)
  case Nil
  show ?case by simp
next
  case (Cons x ds)
  from Cons.prems obtain d where x: "x = PDict d" "wf_dict d" "''self'' \<notin> fst ` set d"
    by auto
  let ?o = "\<lparr>cls = c, attrs = d\<rparr>"
  from Cons.prems have "\<forall>y \<in> set ds. \<exists>d. y = PDict d \<and> wf_dict d \<and> ''self'' \<notin> fst ` set d"
    by simp
  from Cons.IH [OF this, of "acc @ [?o]"]
  obtain objs where objs: "construct_all c (acc @ [?o]) ds = Inr ((acc @ [?o]) @ objs)"
    "length objs = length ds"
    "\<forall>i < length ds. cls (objs ! i) = c \<and> PDict (attrs (objs ! i)) = ds ! i"
    by blast
  have run: "construct_all c acc (x # ds) = Inr (acc @ (?o # objs))"
    using x objs(1) by (simp add: PanObject_init_wf)
  have each: "\<forall>i < length (x # ds).
      cls ((?o # objs) ! i) = c \<and> PDict (attrs ((?o # objs) ! i)) = (x # ds) ! i"
    using x(1) objs(3) by (auto simp: nth_Cons split: nat.split)
  from run objs(2) each show ?case
    by (intro exI [of _ "?o # objs"]) simp
qed

text \<open>
  Claim C6, as stated, fails on an entity with \<^verbatim>\<open>folder = "F"\<close> whose \<^verbatim>\<open>_endpoint\<close> is
  overridden by the integer 5: \<^verbatim>\<open>self._base_url + self._endpoint\<close> raises \<^verbatim>\<open>TypeError\<close> on line
  112, list lets it through and sends nothing.
\<close>

theorem list_with_folder_type_error:
  "attr obj_int_endpoint_folder ''folder'' = Some (PStr ''F'')
   \<and> list_objects (net_answer 200 (PDict [(''data'', PList [])])) obj_int_endpoint_folder w0
       = (Inl TypeError, obj_int_endpoint_folder, reauthenticate w0)
   \<and> sent (reauthenticate w0) = []"
  by (simp add: list_objects_def list_request_def base_endpoint_def self_base_url_def
      self_endpoint_def attr_def obj_int_endpoint_folder_def ensure_session_def
      reauthenticate_def w0_def)

text \<open>
  Claim C6, amended. On an entity for which \<^verbatim>\<open>self._base_url + self._endpoint\<close> evaluates,
  to \<open>u\<close> (base + endpoint of the class unless an instance attribute overrides one of them):
  with \<^verbatim>\<open>folder\<close> set to \<open>F\<close>, list sends a GET to \<open>u\<close> with the parameters
  \<^verbatim>\<open>{"folder": F, "limit": 5000}\<close>; with \<^verbatim>\<open>folder\<close> unset it sends none, so no limit either. On
  status 200 with a \<^verbatim>\<open>data\<close> list, list returns the instances constructed from its elements
  in order: when every element is a keyword dictionary, a sequence as long as \<^verbatim>\<open>data\<close> whose
  i-th element is an instance of the class of \<^verbatim>\<open>self\<close> with the attributes \<^verbatim>\<open>data[i]\<close>.
\<close>

theorem list_sends_limit_and_rebuilds:
  "(base_endpoint self = Inr u \<and> attr self ''folder'' = Some F \<longrightarrow>
      list_request self =
        Inr \<lparr>verb = GET, url = u, headers = None,
             params = [(''folder'', F), (''limit'', PInt 5000)], json = None\<rparr>)
   \<and> (base_endpoint self = Inr u \<and> attr self ''folder'' = None \<longrightarrow>
      list_request self =
        Inr \<lparr>verb = GET, url = u, headers = None, params = [], json = None\<rparr>)
   \<and> (attr self ''_base_url'' = None \<and> attr self ''_endpoint'' = None \<longrightarrow>
        base_endpoint self = Inr (PStr (base_url (cls self) @ endpoint (cls self))))
   \<and> (list_request self = Inr req \<and> net req = Inr resp \<and> status_code resp = 200
        \<and> resp_json resp = Some (PDict b) \<and> map_of b ''data'' = Some (PList ds) \<longrightarrow>
      fst (list_objects net self w) = map_sum id Some (construct_all (cls self) [] ds)
      \<and> fst (snd (list_objects net self w)) = self
      \<and> sent (snd (snd (list_objects net self w))) = sent w @ [req]
      \<and> ((\<forall>x \<in> set ds. \<exists>d. x = PDict d \<and> wf_dict d \<and> ''self'' \<notin> fst ` set d) \<longrightarrow>
           (\<exists>objs. fst (list_objects net self w) = Inr (Some objs) \<and> length objs = length ds
              \<and> (\<forall>i < length ds. cls (objs ! i) = cls self \<and> PDict (attrs (objs ! i)) = ds ! i))))"
proof -
  have p1: "base_endpoint self = Inr u \<and> attr self ''folder'' = Some F \<longrightarrow>
      list_request self =
        Inr \<lparr>verb = GET, url = u, headers = None,
             params = [(''folder'', F), (''limit'', PInt 5000)], json = None\<rparr>"
    by (simp add: list_request_def)
  have p2: "base_endpoint self = Inr u \<and> attr self ''folder'' = None \<longrightarrow>
      list_request self =
        Inr \<lparr>verb = GET, url = u, headers = None, params = [], json = None\<rparr>"
    by (simp add: list_request_def)
  have cl: "attr self ''_base_url'' = None \<and> attr self ''_endpoint'' = None \<longrightarrow>
        base_endpoint self = Inr (PStr (base_url (cls self) @ endpoint (cls self)))"
    by (simp add: base_endpoint_class)
  have ret: "list_request self = Inr req \<and> net req = Inr resp \<and> status_code resp = 200
        \<and> resp_json resp = Some (PDict b) \<and> map_of b ''data'' = Some (PList ds) \<longrightarrow>
      fst (list_objects net self w) = map_sum id Some (construct_all (cls self) [] ds)
      \<and> fst (snd (list_objects net self w)) = self
      \<and> sent (snd (snd (list_objects net self w))) = sent w @ [req]"
    by (simp add: list_objects_def Let_def send_answers sent_ensure_session)
  have each: "(\<forall>x \<in> set ds. \<exists>d. x = PDict d \<and> wf_dict d \<and> ''self'' \<notin> fst ` set d) \<longrightarrow>
      (\<exists>objs. map_sum id Some (construct_all (cls self) [] ds) = Inr (Some objs)
         \<and> length objs = length ds
         \<and> (\<forall>i < length ds. cls (objs ! i) = cls self \<and> PDict (attrs (objs ! i)) = ds ! i))"
  proof
    assume "\<forall>x \<in> set ds. \<exists>d. x = PDict d \<and> wf_dict d \<and> ''self'' \<notin> fst ` set d"
    from construct_all_wf [OF this, of "cls self" "[]"]
    obtain objs where "construct_all (cls self) [] ds = Inr objs" "length objs = length ds"
      "\<forall>i < length ds. cls (objs ! i) = cls self \<and> PDict (attrs (objs ! i)) = ds ! i"
      by auto
    then show "\<exists>objs. map_sum id Some (construct_all (cls self) [] ds) = Inr (Some objs)
         \<and> length objs = length ds
         \<and> (\<forall>i < length ds. cls (objs ! i) = cls self \<and> PDict (attrs (objs ! i)) = ds ! i)"
      by simp
  qed
  from p1 p2 cl ret each show ?thesis by simp
qed

theorem list_sends_limit_and_rebuilds_witness:
  "attr obj_anon ''folder'' = Some (PStr ''F'')
   \<and> base_endpoint obj_anon
       = Inr (PStr ''https://api.sase.paloaltonetworks.com/sse/config/v1/addresses'')
   \<and> list_request obj_anon
       = Inr \<lparr>verb = GET,
              url = PStr ''https://api.sase.paloaltonetworks.com/sse/config/v1/addresses'',
              headers = None, params = [(''folder'', PStr ''F''), (''limit'', PInt 5000)],
              json = None\<rparr>
   \<and> list_request obj_evil_folder
       = Inr \<lparr>verb = GET, url = PStr ''https://api.sase.paloaltonetworks.com/evil'',
              headers = None, params = [(''folder'', PStr ''F''), (''limit'', PInt 5000)],
              json = None\<rparr>
   \<and> attr obj_by_name ''folder'' = None
   \<and> list_request obj_by_name
       = Inr \<lparr>verb = GET,
              url = PStr ''https://api.sase.paloaltonetworks.com/sse/config/v1/addresses'',
              headers = None, params = [], json = None\<rparr>
   \<and> map (\<lambda>q. Inr q) (sent (snd (snd (list_objects (net_answer 200 (PDict [(''data'',
         PList [PDict [(''id'', PStr ''1''), (''name'', PStr ''a'')],
                PDict [(''id'', PStr ''2''), (''name'', PStr ''b'')]])])) obj_anon w0))))
       = [list_request obj_anon]
   \<and> (\<exists>objs. fst (list_objects (net_answer 200 (PDict [(''data'',
         PList [PDict [(''id'', PStr ''1''), (''name'', PStr ''a'')],
                PDict [(''id'', PStr ''2''), (''name'', PStr ''b'')]])])) obj_anon w0)
           = Inr (Some objs)
        \<and> length objs = 2
        \<and> cls (objs ! 0) = addresses
        \<and> attrs (objs ! 0) = [(''id'', PStr ''1''), (''name'', PStr ''a'')]
        \<and> cls (objs ! 1) = addresses
        \<and> attrs (objs ! 1) = [(''id'', PStr ''2''), (''name'', PStr ''b'')])"
proof -
  let ?u = "''https://api.sase.paloaltonetworks.com/sse/config/v1/addresses''"
  let ?e = "''https://api.sase.paloaltonetworks.com/evil''"
  let ?d1 = "[(''id'', PStr ''1''), (''name'', PStr ''a'')]"
  let ?d2 = "[(''id'', PStr ''2''), (''name'', PStr ''b'')]"
  let ?ds = "[PDict ?d1, PDict ?d2]"
  let ?b = "[(''data'', PList ?ds)]"
  let ?net = "net_answer 200 (PDict ?b)"
  let ?resp = "\<lparr>status_code = 200, resp_json = Some (PDict ?b)\<rparr>"
  let ?q = "\<lparr>verb = GET, url = PStr ?u, headers = None,
            params = [(''folder'', PStr ''F''), (''limit'', PInt 5000)], json = None\<rparr>"
  have f1: "attr obj_anon ''folder'' = Some (PStr ''F'')" "attr obj_anon ''_base_url'' = None"
    "attr obj_anon ''_endpoint'' = None"
    by (simp_all add: attr_def obj_anon_def)
  have f2: "attr obj_by_name ''folder'' = None" "attr obj_by_name ''_base_url'' = None"
    "attr obj_by_name ''_endpoint'' = None"
    by (simp_all add: attr_def obj_by_name_def)
  have f3: "attr obj_evil_folder ''folder'' = Some (PStr ''F'')"
    by (simp add: attr_def obj_evil_folder_def)
  have be3: "base_endpoint obj_evil_folder = Inr (PStr ?e)"
    by (simp add: base_endpoint_def self_base_url_def self_endpoint_def attr_def
        obj_evil_folder_def addresses_def PanObject_base_url_def)
  have c: "base_url (cls obj_anon) @ endpoint (cls obj_anon) = ?u"
    "base_url (cls obj_by_name) @ endpoint (cls obj_by_name) = ?u"
    "cls obj_anon = addresses" "sent w0 = []"
    by (simp_all add: obj_anon_def obj_by_name_def w0_def addresses_def PanObject_base_url_def)
  have ok: "\<forall>x \<in> set ?ds. \<exists>d. x = PDict d \<and> wf_dict d \<and> ''self'' \<notin> fst ` set d"
    by (simp add: wf_dict_def)
  note t1 = list_sends_limit_and_rebuilds
    [where self = obj_anon and u = "PStr ?u" and F = "PStr ''F''" and net = ?net and resp = ?resp
       and b = ?b and ds = ?ds and w = w0 and req = ?q]
  note t2 = list_sends_limit_and_rebuilds [where self = obj_by_name and u = "PStr ?u"]
  note t3 = list_sends_limit_and_rebuilds
    [where self = obj_evil_folder and u = "PStr ?e" and F = "PStr ''F''"]
  from t1 f1 c have be1: "base_endpoint obj_anon = Inr (PStr ?u)" by simp
  from t2 f2 c have be2: "base_endpoint obj_by_name = Inr (PStr ?u)" by simp
  from t1 f1 be1 have p1: "list_request obj_anon = Inr ?q" by simp
  from t2 f2 be2 have p2: "list_request obj_by_name
      = Inr \<lparr>verb = GET, url = PStr ?u, headers = None, params = [], json = None\<rparr>" by simp
  from t3 f3 be3 have p3: "list_request obj_evil_folder
      = Inr \<lparr>verb = GET, url = PStr ?e, headers = None,
             params = [(''folder'', PStr ''F''), (''limit'', PInt 5000)], json = None\<rparr>" by simp
  have hyp: "list_request obj_anon = Inr ?q \<and> ?net ?q = Inr ?resp \<and> status_code ?resp = 200
      \<and> resp_json ?resp = Some (PDict ?b) \<and> map_of ?b ''data'' = Some (PList ?ds)"
    using p1 by (simp add: net_answer_def)
  note ret = t1 [THEN conjunct2, THEN conjunct2, THEN conjunct2, THEN mp, OF hyp]
  from ret c p1
  have s: "map (\<lambda>q. Inr q) (sent (snd (snd (list_objects ?net obj_anon w0)))) = [list_request obj_anon]"
    by simp
  from ret [THEN conjunct2, THEN conjunct2, THEN conjunct2, THEN mp, OF ok]
  obtain objs where o: "fst (list_objects ?net obj_anon w0) = Inr (Some objs)"
    "length objs = length ?ds"
    "\<forall>i < length ?ds. cls (objs ! i) = cls obj_anon \<and> PDict (attrs (objs ! i)) = ?ds ! i"
    by blast
  from o(3) have "cls (objs ! 0) = cls obj_anon \<and> PDict (attrs (objs ! 0)) = ?ds ! 0"
    "cls (objs ! 1) = cls obj_anon \<and> PDict (attrs (objs ! 1)) = ?ds ! 1"
    by simp_all
  with c have e: "cls (objs ! 0) = addresses" "attrs (objs ! 0) = ?d1"
    "cls (objs ! 1) = addresses" "attrs (objs ! 1) = ?d2"
    by simp_all
  from o(2) have l: "length objs = 2" by simp
  have ex: "\<exists>objs. fst (list_objects ?net obj_anon w0) = Inr (Some objs) \<and> length objs = 2
      \<and> cls (objs ! 0) = addresses \<and> attrs (objs ! 0) = ?d1
      \<and> cls (objs ! 1) = addresses \<and> attrs (objs ! 1) = ?d2"
    using o(1) l e by blast
  from f1(1) f2(1) be1 p1 p2 p3 s ex show ?thesis by simp
qed

end
